theory Spec2Isabelle
  imports Complex_Main
begin

section \<open>Python values and library functions used by the controller\<close>

text \<open>
  The controller is Python. Its floating-point quantities (millimetres, litres,
  probabilities) are modelled as exact rationals, its integers as \<open>int\<close> or
  \<open>nat\<close>, its strings as \<open>string\<close> over the code points 0 to 255, and every
  \<open>raise\<close> as a value of \<open>py_error\<close> on the left of a sum.
\<close>

datatype py_error =
  KeyError | ValueError | IndexError | TypeError | ZeroDivisionError | APIConnectionError

definition is_space :: "char \<Rightarrow> bool" where
  \<comment> \<open>\<open>str.isspace()\<close> of one character: what \<open>str.strip()\<close> and \<open>int()\<close> remove\<close>
  "is_space c =
     (c \<in> set [CHR 0x09, CHR 0x0A, CHR 0x0B, CHR 0x0C, CHR 0x0D,
                CHR 0x1C, CHR 0x1D, CHR 0x1E, CHR 0x1F, CHR '' '', CHR 0x85, CHR 0xA0])"

definition py_strip :: "string \<Rightarrow> string" where
  \<comment> \<open>\<open>str.strip()\<close>\<close>
  "py_strip s = rev (dropWhile is_space (rev (dropWhile is_space s)))"

definition is_digit :: "char \<Rightarrow> bool" where
  \<comment> \<open>a decimal digit \<open>0\<close> to \<open>9\<close>\<close>
  "is_digit c = (48 \<le> (of_char c :: nat) \<and> (of_char c :: nat) \<le> 57)"

definition is_digit_char :: "char \<Rightarrow> bool" where
  \<comment> \<open>\<open>str.isdigit()\<close> of one character: the decimal digits and the superscripts
      two, three and one\<close>
  "is_digit_char c = (is_digit c \<or> c \<in> set [CHR 0xB2, CHR 0xB3, CHR 0xB9])"

definition py_isdigit :: "string \<Rightarrow> bool" where
  \<comment> \<open>\<open>str.isdigit()\<close>\<close>
  "py_isdigit s = (s \<noteq> [] \<and> list_all is_digit_char s)"

definition digits_value :: "string \<Rightarrow> int" where
  "digits_value s = foldl (\<lambda>acc c. 10 * acc + (of_char c - 48)) 0 s"

fun int_digits :: "string \<Rightarrow> string option" where
  \<comment> \<open>the digits of an integer literal: decimal digits, single underscores allowed
      between two of them\<close>
  "int_digits [] = None"
| "int_digits [c] = (if is_digit c then Some [c] else None)"
| "int_digits (c # u # rest) =
     (if is_digit c then
        (case (if u = CHR ''_'' then int_digits rest else int_digits (u # rest)) of
           None \<Rightarrow> None
         | Some ds \<Rightarrow> Some (c # ds))
      else None)"

definition py_int :: "string \<Rightarrow> py_error + int" where
  \<comment> \<open>\<open>int(s)\<close>: surrounding whitespace ignored, an optional sign, then the digits\<close>
  "py_int s =
     (case py_strip s of
        [] \<Rightarrow> Inl ValueError
      | c # r \<Rightarrow>
          if c = CHR ''-'' then
            (case int_digits r of None \<Rightarrow> Inl ValueError | Some ds \<Rightarrow> Inr (- digits_value ds))
          else if c = CHR ''+'' then
            (case int_digits r of None \<Rightarrow> Inl ValueError | Some ds \<Rightarrow> Inr (digits_value ds))
          else
            (case int_digits (c # r) of None \<Rightarrow> Inl ValueError | Some ds \<Rightarrow> Inr (digits_value ds)))"

fun split_on :: "char \<Rightarrow> string \<Rightarrow> string list" where
  \<comment> \<open>\<open>s.split(sep)\<close> for a one-character separator\<close>
  "split_on sep [] = [[]]"
| "split_on sep (c # cs) =
     (if c = sep then [] # split_on sep cs
      else (case split_on sep cs of
              w # ws \<Rightarrow> (c # w) # ws
            | [] \<Rightarrow> [[c]]))"

definition py_index :: "'a list \<Rightarrow> int \<Rightarrow> nat option" where
  \<comment> \<open>list subscripts: a negative index counts from the end\<close>
  "py_index xs i =
     (if 0 \<le> i \<and> i < int (length xs) then Some (nat i)
      else if i < 0 \<and> - int (length xs) \<le> i then Some (nat (int (length xs) + i))
      else None)"

definition py_get :: "'a list \<Rightarrow> int \<Rightarrow> py_error + 'a" where
  "py_get xs i = (case py_index xs i of None \<Rightarrow> Inl IndexError | Some j \<Rightarrow> Inr (xs ! j))"

definition py_set :: "'a list \<Rightarrow> int \<Rightarrow> 'a \<Rightarrow> py_error + 'a list" where
  "py_set xs i v = (case py_index xs i of None \<Rightarrow> Inl IndexError | Some j \<Rightarrow> Inr (xs[j := v]))"

definition py_trunc :: "rat \<Rightarrow> int" where
  \<comment> \<open>\<open>int(x)\<close> of a float: towards zero\<close>
  "py_trunc x = (if 0 \<le> x then \<lfloor>x\<rfloor> else \<lceil>x\<rceil>)"

text \<open>
  \<open>round(x, 2)\<close> of a double is the multiple of 0.01 nearest to it. The model computes
  the exact amount; where that lies halfway between two multiples, the double the code
  rounds lies on one side or the other (exactly halfway only when the tie is a binary
  fraction, where Python takes the even neighbour), which the exact amount does not
  determine. \<open>tie_up x\<close> says whether the result at such an \<open>x\<close> is the upper
  neighbour.
\<close>

definition py_round_int :: "(rat \<Rightarrow> bool) \<Rightarrow> rat \<Rightarrow> int" where
  "py_round_int tie_up q =
     (let f = \<lfloor>q\<rfloor>; d = q - of_int f
      in if d < 1 / 2 then f else if 1 / 2 < d then f + 1 else if tie_up q then f + 1 else f)"

definition py_round2 :: "(rat \<Rightarrow> bool) \<Rightarrow> rat \<Rightarrow> rat" where
  \<comment> \<open>\<open>round(x, 2)\<close>\<close>
  "py_round2 tie_up x = of_int (py_round_int (\<lambda>q. tie_up (q / 100)) (x * 100)) / 100"

section \<open>Dates and times of day\<close>

text \<open>
  A timezone-aware local \<open>datetime\<close> is the number of seconds on the local wall clock
  since 1970-01-01 00:00:00; its \<open>date()\<close> is the day number, and a \<open>time\<close> is
  hour, minute and second.
\<close>

type_synonym datetime = int
type_synonym py_time = "int \<times> int \<times> int"

definition date_of :: "datetime \<Rightarrow> int" where
  "date_of t = t div 86400"



definition second_of :: "datetime \<Rightarrow> int" where
  "second_of t = t mod 60"

definition combine :: "int \<Rightarrow> py_time \<Rightarrow> datetime" where
  \<comment> \<open>\<open>dt_util.as_local(datetime.combine(day, time))\<close>\<close>
  "combine day tm = (case tm of (h, m, sec) \<Rightarrow> day * 86400 + h * 3600 + m * 60 + sec)"

definition month_of_day :: "int \<Rightarrow> int" where
  \<comment> \<open>\<open>date.month\<close> (1 to 12) of the day \<open>d\<close> days after 1970-01-01, in the proleptic
      Gregorian calendar\<close>
  "month_of_day d =
     (let doe = (d + 719468) mod 146097;
          yoe = (doe - doe div 1460 + doe div 36524 - doe div 146096) div 365;
          doy = doe - (365 * yoe + yoe div 4 - yoe div 100);
          mp = (5 * doy + 2) div 153
      in if mp < 10 then mp + 3 else mp - 9)"

definition time_field :: "int \<Rightarrow> string \<Rightarrow> int option" where
  \<comment> \<open>one \<open>%H\<close>, \<open>%M\<close> or \<open>%S\<close> field of \<open>strptime\<close>: one or two digits, at most
      \<open>hi\<close>\<close>
  "time_field hi s =
     (if s \<noteq> [] \<and> list_all is_digit s \<and> length s \<le> 2 \<and> digits_value s \<le> hi
      then Some (digits_value s) else None)"

definition bare_hour :: "string \<Rightarrow> py_error + py_time" where
  \<comment> \<open>util.py: \<open>if value.isdigit(): h = int(value); if 0 <= h <= 23: return time(h, 0, 0)\<close>,
      else \<open>raise ValueError\<close>\<close>
  "bare_hour v =
     (if py_isdigit v then
        (case py_int v of
           Inl e \<Rightarrow> Inl e
         | Inr h \<Rightarrow> if 0 \<le> h \<and> h \<le> 23 then Inr (h, 0, 0) else Inl ValueError)
      else Inl ValueError)"

definition parse_time_string :: "string \<Rightarrow> py_error + py_time" where
  \<comment> \<open>util.py \<open>parse_time_string\<close>: \<open>%H:%M:%S\<close>, then \<open>%H:%M\<close>, then a bare hour\<close>
  "parse_time_string value =
     (let v = py_strip value in
      case split_on (CHR '':'') v of
        [h, m, sec] \<Rightarrow>
          (case (time_field 23 h, time_field 59 m, time_field 59 sec) of
             (Some a, Some b, Some c) \<Rightarrow> Inr (a, b, c)
           | _ \<Rightarrow> bare_hour v)
      | [h, m] \<Rightarrow>
          (case (time_field 23 h, time_field 59 m) of
             (Some a, Some b) \<Rightarrow> Inr (a, b, 0)
           | _ \<Rightarrow> bare_hour v)
      | _ \<Rightarrow> bare_hour v)"

section \<open>Schedule\<close>

text \<open>
  One entry of the twelve-month schedule. The dictionary \<open>stations\<close> has the keys
  \<open>station_N_minutes\<close>; a key is represented by its station number \<open>N\<close>, and the
  dictionary by the list of its items in iteration order. An absent \<open>interval_days\<close>
  is \<open>None\<close>, an absent \<open>hours\<close> the empty list. An empty dictionary, which the
  code tests with \<open>if not month_config\<close>, is the entry with nothing in it.
\<close>

record month_config =
  interval_days :: "int option"
  hours :: "string list"
  stations :: "(int \<times> int) list"

definition month_config_falsy :: "month_config \<Rightarrow> bool" where
  "month_config_falsy mc = (interval_days mc = None \<and> hours mc = [] \<and> stations mc = [])"

definition get_interval_days :: "month_config \<Rightarrow> int" where
  \<comment> \<open>\<open>month_config.get("interval_days", 2)\<close>\<close>
  "get_interval_days mc = (case interval_days mc of None \<Rightarrow> 2 | Some d \<Rightarrow> d)"

definition last_event :: "datetime option \<Rightarrow> datetime option \<Rightarrow> datetime option" where
  \<comment> \<open>\<open>max(filter(None, [last_rain, last_sprinkle]))\<close> under
      \<open>if last_rain or last_sprinkle\<close>\<close>
  "last_event a b =
     (case a of
        None \<Rightarrow> b
      | Some x \<Rightarrow> (case b of None \<Rightarrow> Some x | Some y \<Rightarrow> Some (max x y)))"

section \<open>Weather providers: forecast blocks\<close>

text \<open>
  A forecast block is the dictionary both providers keep in their forecast cache:
  \<open>dt_txt\<close> (local start of the 3-hour block, \<open>YYYY-MM-DD HH:MM:SS\<close>), \<open>pop\<close>
  and \<open>rain["3h"]\<close>. A key that is absent is \<open>None\<close>.
\<close>

record forecast_block =
  dt_txt :: "string option"
  pop :: "rat option"
  rain_3h :: "rat option"

definition split_dt_txt_owm :: "string \<Rightarrow> py_error + (string \<times> int)" where
  \<comment> \<open>owm.py: \<open>forecast_date, forecast_hour_minute = s.split(" ")\<close>;
      \<open>forecast_hour, _, _ = forecast_hour_minute.split(":")\<close>; \<open>int(forecast_hour)\<close>\<close>
  "split_dt_txt_owm s =
     (case split_on (CHR '' '') s of
        [d, hm] \<Rightarrow>
          (case split_on (CHR '':'') hm of
             [h, m, sec] \<Rightarrow> (case py_int h of Inl e \<Rightarrow> Inl e | Inr n \<Rightarrow> Inr (d, n))
           | _ \<Rightarrow> Inl ValueError)
      | _ \<Rightarrow> Inl ValueError)"

definition split_dt_txt_pw :: "string \<Rightarrow> py_error + (string \<times> int)" where
  \<comment> \<open>pirateweather.py: \<open>forecast_date, forecast_hour_minute = dt_txt.split(" ")\<close>;
      \<open>int(forecast_hour_minute.split(":")[0])\<close>\<close>
  "split_dt_txt_pw s =
     (case split_on (CHR '' '') s of
        [d, hm] \<Rightarrow>
          (case split_on (CHR '':'') hm of
             h # _ \<Rightarrow> (case py_int h of Inl e \<Rightarrow> Inl e | Inr n \<Rightarrow> Inr (d, n))
           | [] \<Rightarrow> Inl IndexError)
      | _ \<Rightarrow> Inl ValueError)"

subsection \<open>\<open>will_it_rain\<close>\<close>

definition block_hours_owm :: "int list" where
  \<comment> \<open>owm.py: \<open>[h for h in range(0, 21, 3)]\<close>\<close>
  "block_hours_owm = [0, 3, 6, 9, 12, 15, 18]"

definition py_max :: "int list \<Rightarrow> py_error + int" where
  "py_max xs = (case xs of [] \<Rightarrow> Inl ValueError | x # r \<Rightarrow> Inr (fold max r x))"

fun relevant_forecasts_owm ::
  "string \<Rightarrow> int \<Rightarrow> forecast_block list \<Rightarrow> py_error + forecast_block list" where
  "relevant_forecasts_owm today_str current_block [] = Inr []"
| "relevant_forecasts_owm today_str current_block (item # rest) =
     (case dt_txt item of
        None \<Rightarrow> Inl KeyError
      | Some s \<Rightarrow>
          (case split_dt_txt_owm s of
             Inl e \<Rightarrow> Inl e
           | Inr (forecast_date, forecast_hour) \<Rightarrow>
               (case relevant_forecasts_owm today_str current_block rest of
                  Inl e \<Rightarrow> Inl e
                | Inr r \<Rightarrow>
                    if forecast_date = today_str \<and> forecast_hour \<ge> current_block
                    then Inr (item # r) else Inr r)))"

definition pop_above_half_owm :: "forecast_block \<Rightarrow> bool" where
  \<comment> \<open>\<open>item.get("pop", 0) > 0.50\<close>\<close>
  "pop_above_half_owm item = ((case pop item of None \<Rightarrow> 0 | Some p \<Rightarrow> p) > 1 / 2)"

definition will_it_rain_owm ::
  "string \<Rightarrow> int \<Rightarrow> forecast_block list \<Rightarrow> py_error + bool" where
  \<comment> \<open>owm.py \<open>will_it_rain\<close>, on the list \<open>get_forecast\<close> returned; the result is
      the \<open>will_rain\<close> entry\<close>
  "will_it_rain_owm today_str current_hour forecast =
     (case py_max [h \<leftarrow> block_hours_owm. h \<le> current_hour] of
        Inl e \<Rightarrow> Inl e
      | Inr current_block \<Rightarrow>
          (case relevant_forecasts_owm today_str current_block forecast of
             Inl e \<Rightarrow> Inl e
           | Inr relevant \<Rightarrow> Inr (list_ex pop_above_half_owm relevant)))"

definition will_it_rain_pw :: "forecast_block list \<Rightarrow> py_error + bool" where
  \<comment> \<open>pirateweather.py \<open>will_it_rain\<close>:
      \<open>any((item.get("pop") or 0.0) > 0.50 for item in forecast)\<close>\<close>
  "will_it_rain_pw forecast =
     Inr (list_ex (\<lambda>item. (case pop item of None \<Rightarrow> 0 | Some p \<Rightarrow> p) > 1 / 2) forecast)"

subsection \<open>\<open>get_total_rain_forecast_for_today\<close>\<close>

fun total_rain_loop_owm ::
  "string \<Rightarrow> int \<Rightarrow> forecast_block list \<Rightarrow> rat \<Rightarrow> py_error + rat" where
  "total_rain_loop_owm today_str current_time [] total_rain_mm = Inr total_rain_mm"
| "total_rain_loop_owm today_str current_time (item # rest) total_rain_mm =
     (case dt_txt item of
        None \<Rightarrow> Inl KeyError
      | Some s \<Rightarrow>
          (case split_dt_txt_owm s of
             Inl e \<Rightarrow> Inl e
           | Inr (forecast_date, forecast_hour) \<Rightarrow>
               (let rain_mm = (case rain_3h item of None \<Rightarrow> 0 | Some r \<Rightarrow> r) in
                if forecast_date \<noteq> today_str
                then total_rain_loop_owm today_str current_time rest total_rain_mm
                else
                  (let forecast_start_minute = forecast_hour * 60;
                       forecast_end_minute = forecast_start_minute + 180 in
                   if forecast_end_minute \<le> current_time
                   then total_rain_loop_owm today_str current_time rest total_rain_mm
                   else
                     (let rain_mm' =
                            (if forecast_start_minute \<le> current_time \<and> current_time < forecast_end_minute
                             then (of_int (forecast_end_minute - current_time) / 180) * rain_mm
                             else rain_mm)
                      in total_rain_loop_owm today_str current_time rest (total_rain_mm + rain_mm'))))))"

definition get_total_rain_forecast_for_today_owm ::
  "string \<Rightarrow> int \<Rightarrow> int \<Rightarrow> forecast_block list \<Rightarrow> py_error + rat" where
  \<comment> \<open>owm.py: \<open>will_it_rain()\<close> runs first, then the loop over its \<open>forecast\<close>\<close>
  "get_total_rain_forecast_for_today_owm today_str hour minute forecast =
     (case will_it_rain_owm today_str hour forecast of
        Inl e \<Rightarrow> Inl e
      | Inr _ \<Rightarrow> total_rain_loop_owm today_str (hour * 60 + minute) forecast 0)"

fun total_rain_loop_pw ::
  "string \<Rightarrow> int \<Rightarrow> forecast_block list \<Rightarrow> rat \<Rightarrow> py_error + rat" where
  "total_rain_loop_pw today_str current_time [] total_rain_mm = Inr total_rain_mm"
| "total_rain_loop_pw today_str current_time (item # rest) total_rain_mm =
     (case dt_txt item of
        None \<Rightarrow> total_rain_loop_pw today_str current_time rest total_rain_mm
      | Some s \<Rightarrow>
          if s = [] then total_rain_loop_pw today_str current_time rest total_rain_mm
          else
          (case split_dt_txt_pw s of
             Inl e \<Rightarrow> Inl e
           | Inr (forecast_date, forecast_hour) \<Rightarrow>
               if forecast_date \<noteq> today_str
               then total_rain_loop_pw today_str current_time rest total_rain_mm
               else
                 (let rain_mm = (case rain_3h item of None \<Rightarrow> 0 | Some r \<Rightarrow> r);
                      forecast_start_minute = forecast_hour * 60;
                      forecast_end_minute = forecast_start_minute + 180 in
                  if forecast_end_minute \<le> current_time
                  then total_rain_loop_pw today_str current_time rest total_rain_mm
                  else
                    (let rain_mm' =
                           (if forecast_start_minute \<le> current_time \<and> current_time < forecast_end_minute
                            then (of_int (forecast_end_minute - current_time) / 180) * rain_mm
                            else rain_mm)
                     in total_rain_loop_pw today_str current_time rest (total_rain_mm + rain_mm')))))"

definition get_total_rain_forecast_for_today_pw ::
  "string \<Rightarrow> int \<Rightarrow> int \<Rightarrow> forecast_block list \<Rightarrow> py_error + rat" where
  "get_total_rain_forecast_for_today_pw today_str hour minute forecast =
     total_rain_loop_pw today_str (hour * 60 + minute) forecast 0"

subsection \<open>The specification's reading of the two queries\<close>

definition block_start :: "forecast_block \<Rightarrow> (string \<times> int) option" where
  \<comment> \<open>date and start hour of a block whose \<open>dt_txt\<close> both providers can read\<close>
  "block_start b =
     (case dt_txt b of
        None \<Rightarrow> None
      | Some s \<Rightarrow>
          (case (split_dt_txt_owm s, split_dt_txt_pw s) of
             (Inr x, Inr y) \<Rightarrow> if x = y \<and> s \<noteq> [] then Some x else None
           | _ \<Rightarrow> None))"

definition well_formed_block :: "forecast_block \<Rightarrow> bool" where
  "well_formed_block b = (block_start b \<noteq> None)"

definition block_mm :: "forecast_block \<Rightarrow> rat" where
  "block_mm b = (case rain_3h b of None \<Rightarrow> 0 | Some r \<Rightarrow> r)"

definition spec_block_contribution :: "string \<Rightarrow> int \<Rightarrow> forecast_block \<Rightarrow> rat" where
  \<comment> \<open>what one block adds to the rest-of-today total at minute \<open>now\<close> of the day:
      nothing when it is not dated today or has ended, its mm scaled by the share of its
      180 minutes still to come when it is running, its full mm when it is still to start\<close>
  "spec_block_contribution today_str now b =
     (case block_start b of
        None \<Rightarrow> 0
      | Some (d, h) \<Rightarrow>
          if d \<noteq> today_str \<or> h * 60 + 180 \<le> now then 0
          else if h * 60 \<le> now then block_mm b * (of_int (h * 60 + 180 - now) / 180)
          else block_mm b)"

definition spec_total_rain :: "string \<Rightarrow> int \<Rightarrow> forecast_block list \<Rightarrow> rat" where
  "spec_total_rain today_str now forecast =
     sum_list (map (spec_block_contribution today_str now) forecast)"

definition spec_will_rain :: "string \<Rightarrow> int \<Rightarrow> forecast_block list \<Rightarrow> bool" where
  \<comment> \<open>some block dated today that starts at or after the 3-hour boundary of the current
      hour has a probability above one half\<close>
  "spec_will_rain today_str current_hour forecast =
     list_ex (\<lambda>b. case block_start b of
                     None \<Rightarrow> False
                   | Some (d, h) \<Rightarrow>
                       d = today_str \<and> h \<ge> 3 * (current_hour div 3)
                       \<and> (case pop b of None \<Rightarrow> 0 | Some p \<Rightarrow> p) > 1 / 2) forecast"

definition example_forecast :: "forecast_block list" where
  "example_forecast =
     [\<lparr>dt_txt = Some ''2024-06-01 09:00:00'', pop = Some (2 / 10), rain_3h = Some 3\<rparr>,
      \<lparr>dt_txt = Some ''2024-06-01 12:00:00'', pop = Some (7 / 10), rain_3h = Some 2\<rparr>,
      \<lparr>dt_txt = Some ''2024-06-02 00:00:00'', pop = None, rain_3h = None\<rparr>]"

section \<open>Action invoker (api.py)\<close>

text \<open>
  A value sent in a service payload. A float keeps the text that \<open>float()\<close>
  accepted; which texts it accepts is a parameter \<open>float_parses\<close> of the model.
\<close>

datatype pyval = PInt int | PFloat string | PStr string

definition coerce_scalar :: "(string \<Rightarrow> bool) \<Rightarrow> string \<Rightarrow> pyval" where
  \<comment> \<open>api.py \<open>_coerce_scalar\<close>\<close>
  "coerce_scalar float_parses value =
     (let v = py_strip value in
      if v = [] then PStr []
      else if py_isdigit v \<or> (case v of c # r \<Rightarrow> c = CHR ''-'' \<and> py_isdigit r | [] \<Rightarrow> False)
        then (case py_int v of Inr n \<Rightarrow> PInt n | Inl e \<Rightarrow> PStr v)
      else if float_parses v then PFloat v
      else PStr v)"

record service_param =
  param_name :: "string option"
  param_type :: "string option"
  param_value :: "string option"

record action_cfg =
  enabled :: "bool option"
  service :: "string option"
  params :: "service_param list"

definition or_empty :: "string option \<Rightarrow> string" where
  \<comment> \<open>\<open>x or ""\<close>\<close>
  "or_empty x = (case x of None \<Rightarrow> [] | Some v \<Rightarrow> v)"

datatype resolution = Omit | Send string pyval

definition resolve_param ::
  "(string \<Rightarrow> bool) \<Rightarrow> string \<Rightarrow> int option \<Rightarrow> int option \<Rightarrow> service_param
     \<Rightarrow> py_error + resolution" where
  \<comment> \<open>api.py \<open>_async_call_configured_service\<close>, the body of \<open>for p in params\<close>\<close>
  "resolve_param float_parses controller_mac station minutes p =
     (let name = py_strip (or_empty (param_name p)) in
      if name = [] then Inr Omit
      else
        (let ptype = py_strip (if or_empty (param_type p) = [] then ''other'' else or_empty (param_type p));
             configured_value = or_empty (param_value p) in
         if py_strip configured_value \<noteq> []
         then Inr (Send name (coerce_scalar float_parses configured_value))
         else if ptype = ''time'' \<and> minutes \<noteq> None then Inr (Send name (PInt (the minutes)))
         else if ptype = ''station'' \<and> station \<noteq> None then Inr (Send name (PInt (the station)))
         else if ptype = ''mac_address''
           then (if controller_mac = [] then Inl APIConnectionError
                 else Inr (Send name (PStr controller_mac)))
         else Inr Omit))"

definition dict_set :: "('k \<times> 'v) list \<Rightarrow> 'k \<Rightarrow> 'v \<Rightarrow> ('k \<times> 'v) list" where
  \<comment> \<open>\<open>d[k] = v\<close> on a dictionary kept as the list of its items\<close>
  "dict_set d k v =
     (if k \<in> fst ` set d then map (\<lambda>(k', v'). if k' = k then (k', v) else (k', v')) d
      else d @ [(k, v)])"

fun build_payload ::
  "(string \<Rightarrow> bool) \<Rightarrow> string \<Rightarrow> int option \<Rightarrow> int option \<Rightarrow> service_param list
     \<Rightarrow> (string \<times> pyval) list \<Rightarrow> py_error + (string \<times> pyval) list" where
  "build_payload float_parses mac station minutes [] payload = Inr payload"
| "build_payload float_parses mac station minutes (p # ps) payload =
     (case resolve_param float_parses mac station minutes p of
        Inl e \<Rightarrow> Inl e
      | Inr Omit \<Rightarrow> build_payload float_parses mac station minutes ps payload
      | Inr (Send name v) \<Rightarrow>
          build_payload float_parses mac station minutes ps (dict_set payload name v))"

definition split_first_dot :: "string \<Rightarrow> (string \<times> string) option" where
  \<comment> \<open>\<open>"." in s\<close> and \<open>s.split(".", 1)\<close>\<close>
  "split_first_dot s =
     (if CHR ''.'' \<in> set s
      then Some (takeWhile (\<lambda>c. c \<noteq> CHR ''.'') s, tl (dropWhile (\<lambda>c. c \<noteq> CHR ''.'') s))
      else None)"

datatype service_call =
  SwitchTurnOn string
| SwitchTurnOff string
| ConfiguredService string string "(string \<times> pyval) list"

definition configured_service_call ::
  "(string \<Rightarrow> bool) \<Rightarrow> string \<Rightarrow> (string \<times> action_cfg) list \<Rightarrow> string
     \<Rightarrow> int option \<Rightarrow> int option \<Rightarrow> py_error + service_call" where
  \<comment> \<open>api.py \<open>_async_call_configured_service\<close> up to the service call: the call it
      is about to make, or the error it raises before making one\<close>
  "configured_service_call float_parses mac service_actions action station minutes =
     (let action_cfg = (case map_of service_actions action of
                          None \<Rightarrow> \<lparr>enabled = None, service = None, params = []\<rparr>
                        | Some c \<Rightarrow> c) in
      if enabled action_cfg = Some False then Inl APIConnectionError
      else
        (case split_first_dot (py_strip (or_empty (service action_cfg))) of
           None \<Rightarrow> Inl APIConnectionError
         | Some (domain, srv) \<Rightarrow>
             (case build_payload float_parses mac station minutes (params action_cfg) [] of
                Inl e \<Rightarrow> Inl e
              | Inr payload \<Rightarrow> Inr (ConfiguredService domain srv payload))))"

definition get_station_switch_entity :: "string list \<Rightarrow> int \<Rightarrow> py_error + string" where
  \<comment> \<open>api.py \<open>_get_station_switch_entity\<close>\<close>
  "get_station_switch_entity station_switch_entities station =
     (let idx = station - 1 in
      if idx < 0 \<or> idx \<ge> int (length station_switch_entities) then Inl APIConnectionError
      else
        (let entity_id = py_strip (station_switch_entities ! nat idx) in
         if entity_id = [] then Inl APIConnectionError else Inr entity_id))"

section \<open>Irrigation engine (coordinator.py): state\<close>

text \<open>
  \<open>config\<close> holds what the coordinator reads from its config entry and keeps fixed
  between reconfigurations. A station's area that is unset is \<open>0\<close>.
\<close>

record config =
  irrigation_control_method :: string
  controller_mac_address :: string
  service_actions :: "(string \<times> action_cfg) list"
  station_switch_entities :: "string list"
  num_stations :: nat
  station_areas :: "rat list"
  sprinkle_with_rain :: bool
  weather_enabled :: bool
  poll_interval :: rat
  soil_moisture_sensor :: "string option"
  soil_moisture_threshold :: rat

text \<open>
  The persisted Active Irrigation Session. \<open>station\<close> and \<open>end_at\<close> are read back
  with \<open>dict.get\<close>, so either may be missing.
\<close>

record active_session =
  session_station :: "int option"
  session_start_at :: string
  session_end_at :: "string option"
  session_duration_minutes :: int

record snapshot =
  snap_will_it_rain_today :: bool
  snap_has_rained_today :: bool
  snap_is_raining_now :: bool
  snap_last_reset :: datetime
  snap_last_sprinkle :: "datetime option"
  snap_last_rain :: "datetime option"
  snap_irrigation_manual_duration :: int
  snap_water_flow_rate :: "rat list"
  snap_rain_time_today :: rat
  snap_rain_total_amount_today :: rat
  snap_rain_total_amount_forecasted_today :: rat
  snap_total_water_consumption :: rat
  snap_sprinkle_total_amount_today :: "rat list"
  snap_sprinkle_target_amount_today :: "rat list"
  snap_forecasted_sprinkle_today :: "rat list"
  snap_schedule :: "month_config list"
  snap_active_irrigation :: "active_session option"

text \<open>
  \<open>engine\<close> is the coordinator's mutable state together with what it has done to the
  host: \<open>clock\<close> is the local time \<open>dt_util.now()\<close> returns, \<open>calls\<close> the service
  calls issued so far (oldest first), \<open>storage\<close> the snapshot last handed to the store,
  and \<open>armed_stops\<close> the \<open>_async_stop_irrigation_after_delay(station, seconds)\<close>
  tasks created so far. \<open>station_state\<close> is \<open>stations[i].state\<close>, and
  \<open>rain_json\<close> the \<open>rain\<close> entry of \<open>is_raining_now_json\<close>. A schedule that is
  not initialised is the empty list.
\<close>

record engine =
  clock :: datetime
  calls :: "service_call list"
  storage :: "snapshot option"
  armed_stops :: "(int \<times> int) list"
  station_state :: "string list"
  water_flow_rate :: "rat list"
  active_irrigation :: "active_session option"
  irrigation_stop_event :: bool
  schedule :: "month_config list"
  next_schedule :: "datetime option"
  irrigation_manual_duration :: int
  last_reset :: datetime
  last_rain :: "datetime option"
  last_sprinkle :: "datetime option"
  will_it_rain_today :: bool
  has_rained_today :: bool
  is_raining_now :: bool
  rain_json :: "(string \<times> rat) list option"
  rain_time_today :: rat
  rain_total_amount_today :: rat
  rain_total_amount_forecasted_today :: rat
  total_water_consumption :: rat
  sprinkle_total_amount_today :: "rat list"
  sprinkle_target_amount_today :: "rat list"
  forecasted_sprinkle_today :: "rat list"

text \<open>
  \<open>host\<close> is everything the engine asks of its collaborators: whether the
  \<open>n\<close>-th service call raises, what the weather facade answers at a given time
  (\<open>Inl\<close> when it raises), the state of the soil-moisture entity, the two ISO
  conversions of \<open>datetime\<close>, which texts \<open>float()\<close> accepts and what it returns, and
  on which side \<open>round\<close> falls at an exact tie.
\<close>

record host =
  call_fails :: "nat \<Rightarrow> service_call \<Rightarrow> bool"
  float_parses :: "string \<Rightarrow> bool"
  round_tie_up :: "rat \<Rightarrow> bool"
  weather_will_it_rain :: "datetime \<Rightarrow> py_error + bool"
  weather_is_raining :: "datetime \<Rightarrow> py_error + (bool \<times> (string \<times> rat) list option)"
  weather_total_rain_forecast :: "datetime \<Rightarrow> py_error + rat"
  soil_moisture_state :: "datetime \<Rightarrow> string option"
  parse_float :: "string \<Rightarrow> rat option"
  isoformat :: "datetime \<Rightarrow> string"
  fromisoformat :: "string \<Rightarrow> datetime option"

datatype outcome = Returned | Raised py_error | Hangs

subsection \<open>Daily target (\<open>calculate_sprinkle_target_amounts\<close>)\<close>

definition station_minutes :: "(int \<times> int) list \<Rightarrow> int \<Rightarrow> int" where
  \<comment> \<open>\<open>stations.get(f"station_{station_id}_minutes", 0)\<close>\<close>
  "station_minutes sts station_id = (case map_of sts station_id of None \<Rightarrow> 0 | Some m \<Rightarrow> m)"

definition area_or_1 :: "rat \<Rightarrow> rat" where
  \<comment> \<open>\<open>self.station_areas[station_id - 1] or 1\<close>\<close>
  "area_or_1 a = (if a = 0 then 1 else a)"

fun target_loop ::
  "host \<Rightarrow> config \<Rightarrow> engine \<Rightarrow> (int \<times> int) list \<Rightarrow> int \<Rightarrow> int list \<Rightarrow> rat list
     \<Rightarrow> py_error + rat list" where
  "target_loop h cfg s sts occurrences [] target = Inr target"
| "target_loop h cfg s sts occurrences (station_id # rest) target =
     (let minutes = station_minutes sts station_id;
          total_minutes = minutes * occurrences in
      if total_minutes > 0 then
        (case py_get (water_flow_rate s) (station_id - 1) of
           Inl e \<Rightarrow> Inl e
         | Inr flow \<Rightarrow>
             (case py_get (station_areas cfg) (station_id - 1) of
                Inl e \<Rightarrow> Inl e
              | Inr a \<Rightarrow>
                  (let area = area_or_1 a;
                       mm = (flow / area) * of_int total_minutes in
                   case py_set target (station_id - 1) (py_round2 (round_tie_up h) mm) of
                     Inl e \<Rightarrow> Inl e
                   | Inr target' \<Rightarrow> target_loop h cfg s sts occurrences rest target')))
      else target_loop h cfg s sts occurrences rest target)"

definition station_ids :: "nat \<Rightarrow> int list" where
  \<comment> \<open>\<open>range(1, self.num_stations + 1)\<close>\<close>
  "station_ids n = map int [1..<Suc n]"

definition calculate_sprinkle_target_amounts :: "host \<Rightarrow> config \<Rightarrow> engine \<Rightarrow> py_error + rat list" where
  "calculate_sprinkle_target_amounts h cfg s =
     (let target = replicate (num_stations cfg) 0;
          today = date_of (clock s);
          current_month_index = month_of_day today - 1 in
      case py_get (schedule s) current_month_index of
        Inl e \<Rightarrow> Inl e
      | Inr month_config \<Rightarrow>
          if month_config_falsy month_config then Inr target
          else
            (let watering_hours = filter (\<lambda>h. h \<noteq> []) (hours month_config);
                 interval = get_interval_days month_config;
                 sts = stations month_config in
             if (case last_event (last_rain s) (last_sprinkle s) of
                   None \<Rightarrow> False
                 | Some last_event_date \<Rightarrow> today - date_of last_event_date < interval)
             then Inr target
             else if watering_hours = [] then Inr target
             else target_loop h cfg s sts (int (length watering_hours))
                    (station_ids (num_stations cfg)) target))"

subsection \<open>Duration of one run (\<open>run_watering_cycle\<close>, the body of its station loop)\<close>

definition watering_minutes_needed ::
  "config \<Rightarrow> engine \<Rightarrow> int \<Rightarrow> int \<Rightarrow> py_error + int option" where
  \<comment> \<open>\<open>None\<close> when the station already met its daily target (\<open>continue\<close>), else
      \<open>minutes_needed\<close>\<close>
  "watering_minutes_needed cfg s occurrences_left station_id =
     (case py_get (sprinkle_target_amount_today s) (station_id - 1) of
        Inl e \<Rightarrow> Inl e
      | Inr target_mm \<Rightarrow>
     (case py_get (sprinkle_total_amount_today s) (station_id - 1) of
        Inl e \<Rightarrow> Inl e
      | Inr already_applied_mm \<Rightarrow>
          (let forecasted_rain_today = rain_total_amount_forecasted_today s;
               daily_remaining_mm = max 0 (target_mm - (already_applied_mm + forecasted_rain_today)) in
           if daily_remaining_mm \<le> 0 then Inr None
           else
             (let per_run_target_mm = daily_remaining_mm / of_int occurrences_left in
              case py_get (water_flow_rate s) (station_id - 1) of
                Inl e \<Rightarrow> Inl e
              | Inr flow_rate \<Rightarrow>
                  (case py_get (station_areas cfg) (station_id - 1) of
                     Inl e \<Rightarrow> Inl e
                   | Inr a \<Rightarrow>
                       (let area = area_or_1 a;
                            mm_per_minute = flow_rate / area in
                        if mm_per_minute = 0 then Inl ZeroDivisionError
                        else Inr (Some (py_trunc (per_run_target_mm / mm_per_minute + 999 / 1000)))))))))"

text \<open>
  The specification's reading of the daily target: the gate on the days since the last
  rain or sprinkle, the hours that count, and the target in mm of one station.
\<close>

definition recorded_events :: "engine \<Rightarrow> datetime list" where
  \<comment> \<open>the last rain and the last sprinkle, those that are recorded\<close>
  "recorded_events s =
     (case last_rain s of None \<Rightarrow> [] | Some r \<Rightarrow> [r])
     @ (case last_sprinkle s of None \<Rightarrow> [] | Some p \<Rightarrow> [p])"

definition too_soon_since_last_event :: "engine \<Rightarrow> month_config \<Rightarrow> bool" where
  \<comment> \<open>the most recent of last rain and last sprinkle is fewer than \<open>interval_days\<close> days
      before today (2 days when the month gives none)\<close>
  "too_soon_since_last_event s mc =
     (recorded_events s \<noteq> []
      \<and> date_of (clock s) - date_of (Max (set (recorded_events s)))
          < (case interval_days mc of None \<Rightarrow> 2 | Some d \<Rightarrow> d))"

definition watering_hours_of :: "month_config \<Rightarrow> string list" where
  "watering_hours_of mc = filter (\<lambda>h. h \<noteq> []) (hours mc)"

definition spec_target_amount :: "config \<Rightarrow> engine \<Rightarrow> month_config \<Rightarrow> int \<Rightarrow> int \<Rightarrow> rat" where
  \<comment> \<open>(flow / area) times (minutes per run times occurrences), before rounding, the
      area taken as 1 when it is zero\<close>
  "spec_target_amount cfg s mc minutes station_id =
     (let flow = water_flow_rate s ! nat (station_id - 1);
          area = station_areas cfg ! nat (station_id - 1)
      in (flow / (if area = 0 then 1 else area))
         * of_int (minutes * int (length (watering_hours_of mc))))"

definition rounded_to_2_decimals :: "rat \<Rightarrow> rat \<Rightarrow> bool" where
  \<comment> \<open>\<open>r\<close> is \<open>x\<close> rounded to 2 decimals: a whole number of hundredths, at most half
      a hundredth away from \<open>x\<close>\<close>
  "rounded_to_2_decimals r x = (r * 100 = of_int \<lfloor>r * 100\<rfloor> \<and> \<bar>r - x\<bar> \<le> 1 / 200)"

definition scenario_config :: config where
  \<comment> \<open>one station of 10 square metres\<close>
  "scenario_config =
     \<lparr>irrigation_control_method = ''switch'', controller_mac_address = [],
      service_actions = [], station_switch_entities = [''switch.valve_1''],
      num_stations = 1, station_areas = [10], sprinkle_with_rain = False,
      weather_enabled = False, poll_interval = 60, soil_moisture_sensor = None,
      soil_moisture_threshold = 0\<rparr>"

definition scenario_month :: month_config where
  \<comment> \<open>10 minutes per run for station 1, two runs a day, at least 2 days apart\<close>
  "scenario_month =
     \<lparr>interval_days = Some 2, hours = [''06:00'', ''18:00''], stations = [(1, 10)]\<rparr>"

definition scenario_engine :: engine where
  \<comment> \<open>2024-06-03 05:00:00 (day 19877), last sprinkle two days earlier, flow 12 L/min\<close>
  "scenario_engine =
     \<lparr>clock = 19877 * 86400 + 5 * 3600, calls = [], storage = None, armed_stops = [],
      station_state = [''Stopped''], water_flow_rate = [12], active_irrigation = None,
      irrigation_stop_event = False, schedule = replicate 12 scenario_month,
      next_schedule = None, irrigation_manual_duration = 10,
      last_reset = 19877 * 86400 + 60, last_rain = None,
      last_sprinkle = Some (19875 * 86400 + 18 * 3600),
      will_it_rain_today = False, has_rained_today = False, is_raining_now = False,
      rain_json = None, rain_time_today = 0, rain_total_amount_today = 0,
      rain_total_amount_forecasted_today = 0, total_water_consumption = 0,
      sprinkle_total_amount_today = [0], sprinkle_target_amount_today = [24],
      forecasted_sprinkle_today = [24]\<rparr>"

definition target_formula ::
  "host \<Rightarrow> config \<Rightarrow> engine \<Rightarrow> (int \<times> int) list \<Rightarrow> int \<Rightarrow> int \<Rightarrow> rat" where
  \<comment> \<open>the value \<open>target_loop\<close> stores for a station it waters\<close>
  "target_formula h cfg s sts occurrences station_id =
     py_round2 (round_tie_up h)
               ((water_flow_rate s ! nat (station_id - 1)
                  / area_or_1 (station_areas cfg ! nat (station_id - 1)))
                * of_int (station_minutes sts station_id * occurrences))"

definition spec_minutes_needed :: "config \<Rightarrow> engine \<Rightarrow> int \<Rightarrow> int \<Rightarrow> int" where
  \<comment> \<open>the specification's duration of one run: the ceiling of the per-run target in mm
      over the mm applied per minute\<close>
  "spec_minutes_needed cfg s occurrences_left station_id =
     (let daily_remaining_mm =
            max 0 (sprinkle_target_amount_today s ! nat (station_id - 1)
                   - (sprinkle_total_amount_today s ! nat (station_id - 1)
                      + rain_total_amount_forecasted_today s));
          per_run_target_mm = daily_remaining_mm / of_int occurrences_left;
          mm_per_minute = water_flow_rate s ! nat (station_id - 1)
                          / area_or_1 (station_areas cfg ! nat (station_id - 1))
      in \<lceil>per_run_target_mm / mm_per_minute\<rceil>)"

definition nearly_met_engine :: engine where
  \<comment> \<open>the scenario's station with a 10.00 mm target and 9.9994 mm of rain forecast\<close>
  "nearly_met_engine =
     scenario_engine\<lparr>sprinkle_target_amount_today := [10],
                     rain_total_amount_forecasted_today := 99994 / 10000\<rparr>"





section \<open>Irrigation engine: operations\<close>

subsection \<open>Persistence and host calls\<close>

definition snapshot_of :: "engine \<Rightarrow> snapshot" where
  \<comment> \<open>the \<open>storage_data\<close> dictionary of \<open>save_persistent_data\<close>\<close>
  "snapshot_of s =
     \<lparr>snap_will_it_rain_today = will_it_rain_today s,
      snap_has_rained_today = has_rained_today s,
      snap_is_raining_now = is_raining_now s,
      snap_last_reset = last_reset s,
      snap_last_sprinkle = last_sprinkle s,
      snap_last_rain = last_rain s,
      snap_irrigation_manual_duration = irrigation_manual_duration s,
      snap_water_flow_rate = water_flow_rate s,
      snap_rain_time_today = rain_time_today s,
      snap_rain_total_amount_today = rain_total_amount_today s,
      snap_rain_total_amount_forecasted_today = rain_total_amount_forecasted_today s,
      snap_total_water_consumption = total_water_consumption s,
      snap_sprinkle_total_amount_today = sprinkle_total_amount_today s,
      snap_sprinkle_target_amount_today = sprinkle_target_amount_today s,
      snap_forecasted_sprinkle_today = forecasted_sprinkle_today s,
      snap_schedule = schedule s,
      snap_active_irrigation = active_irrigation s\<rparr>"

definition save_persistent_data :: "engine \<Rightarrow> engine" where
  "save_persistent_data s = s\<lparr>storage := Some (snapshot_of s)\<rparr>"

definition host_call :: "host \<Rightarrow> service_call \<Rightarrow> engine \<Rightarrow> bool \<times> engine" where
  \<comment> \<open>\<open>hass.services.async_call(..., blocking=True)\<close>: the call is issued; the flag says
      whether it raised\<close>
  "host_call h c s = (call_fails h (length (calls s)) c, s\<lparr>calls := calls s @ [c]\<rparr>)"

definition turn_on_station_switch :: "host \<Rightarrow> config \<Rightarrow> int \<Rightarrow> engine \<Rightarrow> outcome \<times> engine" where
  "turn_on_station_switch h cfg station s =
     (case get_station_switch_entity (station_switch_entities cfg) station of
        Inl e \<Rightarrow> (Raised e, s)
      | Inr entity_id \<Rightarrow>
          (case host_call h (SwitchTurnOn entity_id) s of
             (failed, s') \<Rightarrow> (if failed then Raised APIConnectionError else Returned, s')))"

definition turn_off_station_switch :: "host \<Rightarrow> config \<Rightarrow> int \<Rightarrow> engine \<Rightarrow> outcome \<times> engine" where
  "turn_off_station_switch h cfg station s =
     (case get_station_switch_entity (station_switch_entities cfg) station of
        Inl e \<Rightarrow> (Raised e, s)
      | Inr entity_id \<Rightarrow>
          (case host_call h (SwitchTurnOff entity_id) s of
             (failed, s') \<Rightarrow> (if failed then Raised APIConnectionError else Returned, s')))"

fun turn_off_switches :: "host \<Rightarrow> string list \<Rightarrow> engine \<Rightarrow> engine" where
  \<comment> \<open>api.py \<open>turn_off_all_station_switches\<close>: a blank entry is skipped, a failure is
      logged and the loop goes on\<close>
  "turn_off_switches h [] s = s"
| "turn_off_switches h (entity_id # rest) s =
     (let eid = py_strip entity_id in
      if eid = [] then turn_off_switches h rest s
      else turn_off_switches h rest (snd (host_call h (SwitchTurnOff eid) s)))"

definition call_configured_service ::
  "host \<Rightarrow> config \<Rightarrow> string \<Rightarrow> int option \<Rightarrow> int option \<Rightarrow> engine \<Rightarrow> outcome \<times> engine" where
  \<comment> \<open>api.py \<open>_async_call_configured_service\<close>\<close>
  "call_configured_service h cfg action station minutes s =
     (case configured_service_call (float_parses h) (controller_mac_address cfg)
             (service_actions cfg) action station minutes of
        Inl e \<Rightarrow> (Raised e, s)
      | Inr c \<Rightarrow>
          (case host_call h c s of
             (failed, s') \<Rightarrow> (if failed then Raised APIConnectionError else Returned, s')))"

definition is_switch_control_method :: "config \<Rightarrow> bool" where
  "is_switch_control_method cfg = (irrigation_control_method cfg = ''switch'')"

subsection \<open>Daily reset (\<open>reset_rain_sprinkle_indicators\<close>)\<close>

definition reset_rain_sprinkle_indicators :: "host \<Rightarrow> config \<Rightarrow> engine \<Rightarrow> outcome \<times> engine" where
  "reset_rain_sprinkle_indicators h cfg s =
     (let s1 = s\<lparr>has_rained_today := False, will_it_rain_today := False,
                  rain_time_today := 0, rain_total_amount_today := 0,
                  sprinkle_total_amount_today := replicate (num_stations cfg) 0\<rparr> in
      case (if weather_enabled cfg then weather_total_rain_forecast h (clock s1) else Inr 0) of
        Inl e \<Rightarrow> (Raised e, s1)
      | Inr forecast \<Rightarrow>
          (let s2 = s1\<lparr>rain_total_amount_forecasted_today := forecast\<rparr> in
           case calculate_sprinkle_target_amounts h cfg s2 of
             Inl e \<Rightarrow> (Raised e, s2)
           | Inr target \<Rightarrow>
               (Returned,
                save_persistent_data
                  (s2\<lparr>sprinkle_target_amount_today := target,
                      forecasted_sprinkle_today := map (\<lambda>t. max 0 (t - forecast)) target,
                      last_reset := clock s2\<rparr>))))"

subsection \<open>Next watering date (\<open>get_next_watering_date\<close>)\<close>

fun find_month_with_hours ::
  "month_config list \<Rightarrow> int \<Rightarrow> int list \<Rightarrow> py_error + month_config option" where
  \<comment> \<open>\<open>for i in range(12)\<close> with its \<open>break\<close>; \<open>None\<close> is the \<open>else\<close> branch\<close>
  "find_month_with_hours sched current_month_index [] = Inr None"
| "find_month_with_hours sched current_month_index (i # rest) =
     (case py_get sched ((current_month_index + i) mod 12) of
        Inl e \<Rightarrow> Inl e
      | Inr month_config \<Rightarrow>
          if hours month_config \<noteq> [] then Inr (Some month_config)
          else find_month_with_hours sched current_month_index rest)"

partial_function (option) advance_to_month_with_hours ::
  "month_config list \<Rightarrow> int \<Rightarrow> (py_error + int) option" where
  \<comment> \<open>\<open>while not self.schedule[next_watering_day.month - 1].get("hours", []):
      next_watering_day += timedelta(days=1)\<close>; \<open>None\<close> when the loop never ends\<close>
  "advance_to_month_with_hours sched next_watering_day =
     (case py_get sched (month_of_day next_watering_day - 1) of
        Inl e \<Rightarrow> Some (Inl e)
      | Inr month_config \<Rightarrow>
          if hours month_config = [] then advance_to_month_with_hours sched (next_watering_day + 1)
          else Some (Inr next_watering_day))"

declare advance_to_month_with_hours.simps [code]

fun first_future_hour :: "int \<Rightarrow> datetime \<Rightarrow> string list \<Rightarrow> datetime option" where
  \<comment> \<open>\<open>for hour in watering_hours\<close>: the first hour, in list order, that parses and lies
      after now on the candidate day\<close>
  "first_future_hour day now [] = None"
| "first_future_hour day now (hour # rest) =
     (case parse_time_string hour of
        Inl e \<Rightarrow> first_future_hour day now rest
      | Inr next_watering_time \<Rightarrow>
          if combine day next_watering_time > now then Some (combine day next_watering_time)
          else first_future_hour day now rest)"

definition get_next_watering_date :: "engine \<Rightarrow> (py_error + datetime option) option" where
  \<comment> \<open>the outer \<open>None\<close>: the call does not return; \<open>Inr None\<close>: it returns \<open>None\<close>\<close>
  "get_next_watering_date s =
     (if schedule s = [] then Some (Inr None)
      else
        (let now = clock s;
             today = date_of now;
             current_month_index = month_of_day today - 1 in
         case find_month_with_hours (schedule s) current_month_index (map int [0..<12]) of
           Inl e \<Rightarrow> Some (Inl e)
         | Inr None \<Rightarrow> Some (Inr None)
         | Inr (Some month_config) \<Rightarrow>
             (let watering_hours = hours month_config;
                  interval = get_interval_days month_config;
                  day0 = (if has_rained_today s \<or> will_it_rain_today s \<or> is_raining_now s
                          then today + interval else today);
                  day1 = (case last_event (last_rain s) (last_sprinkle s) of
                            None \<Rightarrow> day0
                          | Some last_event_date \<Rightarrow>
                              if today - date_of last_event_date < interval
                              then date_of last_event_date + interval else day0) in
              case advance_to_month_with_hours (schedule s) day1 of
                None \<Rightarrow> None
              | Some (Inl e) \<Rightarrow> Some (Inl e)
              | Some (Inr next_watering_day) \<Rightarrow>
                  (case first_future_hour next_watering_day now watering_hours of
                     Some dt \<Rightarrow> Some (Inr (Some dt))
                   | None \<Rightarrow>
                       (case parse_time_string (hd watering_hours) of
                          Inl e \<Rightarrow> Some (Inl e)
                        | Inr t \<Rightarrow> Some (Inr (Some (combine (next_watering_day + 1) t))))))))"

definition future_hours_on :: "int \<Rightarrow> datetime \<Rightarrow> string list \<Rightarrow> datetime list" where
  \<comment> \<open>the configured hours of a day that are still in the future\<close>
  "future_hours_on day now hrs =
     concat (map (\<lambda>h. case parse_time_string h of
                        Inl e \<Rightarrow> []
                      | Inr t \<Rightarrow> if combine day t > now then [combine day t] else []) hrs)"

definition spec_earliest_future_hour :: "int \<Rightarrow> datetime \<Rightarrow> string list \<Rightarrow> datetime option" where
  \<comment> \<open>the chronologically earliest configured hour of the day that is still in the future\<close>
  "spec_earliest_future_hour day now hrs =
     (case future_hours_on day now hrs of
        [] \<Rightarrow> None
      | c # cs \<Rightarrow> Some (fold min cs c))"

definition unsorted_hours_engine :: engine where
  \<comment> \<open>the scenario at 05:00 with the hours configured as 18:00, 06:00\<close>
  "unsorted_hours_engine =
     scenario_engine\<lparr>schedule := replicate 12 (scenario_month\<lparr>hours := [''18:00'', ''06:00'']\<rparr>)\<rparr>"

subsection \<open>Restart safety (\<open>_async_restore_active_irrigation\<close>)\<close>

definition async_restore_active_irrigation :: "host \<Rightarrow> config \<Rightarrow> engine \<Rightarrow> outcome \<times> engine" where
  "async_restore_active_irrigation h cfg s =
     (if \<not> is_switch_control_method cfg then (Returned, s\<lparr>active_irrigation := None\<rparr>)
      else
        (case active_irrigation s of
           None \<Rightarrow> (Returned, s\<lparr>active_irrigation := None\<rparr>)
         | Some session \<Rightarrow>
             (case (session_station session, session_end_at session) of
                (Some station, Some end_at_str) \<Rightarrow>
                  if station = 0 \<or> end_at_str = [] then (Returned, s\<lparr>active_irrigation := None\<rparr>)
                  else
                    (case fromisoformat h end_at_str of
                       None \<Rightarrow> (Returned, s\<lparr>active_irrigation := None\<rparr>)
                     | Some end_at \<Rightarrow>
                         (let now = clock s in
                          if now \<ge> end_at then
                            (let s1 = snd (turn_off_station_switch h cfg station s) in
                             (Returned, save_persistent_data (s1\<lparr>active_irrigation := None\<rparr>)))
                          else
                            (let remaining_seconds = end_at - now in
                             if remaining_seconds \<le> 0
                             then (Returned, save_persistent_data (s\<lparr>active_irrigation := None\<rparr>))
                             else
                               (let s1 = (case py_set (station_state s) (station - 1) ''Sprinkling'' of
                                            Inl e \<Rightarrow> s
                                          | Inr st \<Rightarrow> s\<lparr>station_state := st\<rparr>) in
                                (Returned,
                                 s1\<lparr>armed_stops := armed_stops s1 @ [(station, remaining_seconds)]\<rparr>)))))
              | _ \<Rightarrow> (Returned, s\<lparr>active_irrigation := None\<rparr>))))"

subsection \<open>Sensor update and stop (\<open>async_update_all_sensors\<close>, \<open>stop_irrigation\<close>)\<close>

definition daily_reset_if_due :: "host \<Rightarrow> config \<Rightarrow> engine \<Rightarrow> engine" where
  \<comment> \<open>after 00:05:00, when \<open>last_reset\<close> is not of today, the daily reset runs; whatever
      it raises is logged and dropped\<close>
  "daily_reset_if_due h cfg s =
     (if clock s mod 86400 > 300 \<and> date_of (last_reset s) \<noteq> date_of (clock s)
      then snd (reset_rain_sprinkle_indicators h cfg s) else s)"

definition fetch_weather :: "host \<Rightarrow> config \<Rightarrow> engine \<Rightarrow> outcome \<times> engine" where
  "fetch_weather h cfg s =
     (if weather_enabled cfg then
        (case weather_will_it_rain h (clock s) of
           Inl e \<Rightarrow> (Raised e, s)
         | Inr will_rain \<Rightarrow>
             (let s1 = s\<lparr>will_it_rain_today := will_rain\<rparr> in
              case weather_is_raining h (clock s1) of
                Inl e \<Rightarrow> (Raised e, s1)
              | Inr (raining, rain) \<Rightarrow>
                  (Returned, s1\<lparr>is_raining_now := raining, rain_json := rain\<rparr>)))
      else (Returned, s\<lparr>will_it_rain_today := False, is_raining_now := False, rain_json := None\<rparr>))"

fun rain_amount_of_keys :: "rat \<Rightarrow> (string \<times> rat) list \<Rightarrow> py_error + rat" where
  \<comment> \<open>\<open>calculate_rain_amount\<close>: the first key of the form digits followed by \<open>h\<close>\<close>
  "rain_amount_of_keys poll [] = Inr 0"
| "rain_amount_of_keys poll ((key, rain_amount) # rest) =
     (if key \<noteq> [] \<and> last key = CHR ''h'' \<and> py_isdigit (butlast key) then
        (case py_int (butlast key) of
           Inl e \<Rightarrow> Inl e
         | Inr n_hours \<Rightarrow>
             (let minutes = n_hours * 60 in
              if minutes = 0 then Inl ZeroDivisionError
              else Inr ((rain_amount / of_int minutes) * (poll / 60))))
      else rain_amount_of_keys poll rest)"

definition calculate_rain_amount :: "config \<Rightarrow> engine \<Rightarrow> py_error + rat" where
  "calculate_rain_amount cfg s =
     (case rain_json s of None \<Rightarrow> Inr 0 | Some rain_data \<Rightarrow> rain_amount_of_keys (poll_interval cfg) rain_data)"

definition account_rain :: "config \<Rightarrow> engine \<Rightarrow> outcome \<times> engine" where
  "account_rain cfg s =
     (if is_raining_now s then
        (let s1 = s\<lparr>has_rained_today := True, last_rain := Some (clock s),
                     rain_time_today := rain_time_today s + poll_interval cfg / 60\<rparr> in
         case calculate_rain_amount cfg s1 of
           Inl e \<Rightarrow> (Raised e, s1)
         | Inr amount \<Rightarrow>
             (Returned, s1\<lparr>rain_total_amount_today := rain_total_amount_today s1 + amount\<rparr>))
      else (Returned, s))"

fun any_sprinkling :: "string list \<Rightarrow> int list \<Rightarrow> py_error + bool" where
  \<comment> \<open>\<open>for station_id in range(1, n + 1): if self.stations[station_id - 1].state ==
      "Sprinkling": ...; break\<close>\<close>
  "any_sprinkling sts [] = Inr False"
| "any_sprinkling sts (station_id # rest) =
     (case py_get sts (station_id - 1) of
        Inl e \<Rightarrow> Inl e
      | Inr st \<Rightarrow> if st = ''Sprinkling'' then Inr True else any_sprinkling sts rest)"

fun mark_all_stopped :: "string list \<Rightarrow> int list \<Rightarrow> outcome \<times> string list" where
  \<comment> \<open>\<open>for station_id in range(1, n + 1): self.stations[station_id - 1].state = "Stopped"\<close>\<close>
  "mark_all_stopped sts [] = (Returned, sts)"
| "mark_all_stopped sts (station_id # rest) =
     (case py_set sts (station_id - 1) ''Stopped'' of
        Inl e \<Rightarrow> (Raised e, sts)
      | Inr sts' \<Rightarrow> mark_all_stopped sts' rest)"

definition finish_update :: "host \<Rightarrow> config \<Rightarrow> engine \<Rightarrow> outcome \<times> engine" where
  \<comment> \<open>the rest of \<open>async_update_all_sensors\<close>: forecast total, next schedule, save\<close>
  "finish_update h cfg s =
     (case (if weather_enabled cfg then weather_total_rain_forecast h (clock s) else Inr 0) of
        Inl e \<Rightarrow> (Raised e, s)
      | Inr forecast \<Rightarrow>
          (let s1 = s\<lparr>rain_total_amount_forecasted_today := forecast + rain_total_amount_today s\<rparr> in
           case get_next_watering_date s1 of
             None \<Rightarrow> (Hangs, s1)
           | Some (Inl e) \<Rightarrow> (Raised e, s1)
           | Some (Inr d) \<Rightarrow> (Returned, save_persistent_data (s1\<lparr>next_schedule := d\<rparr>))))"

definition global_stop :: "host \<Rightarrow> config \<Rightarrow> engine \<Rightarrow> outcome \<times> engine" where
  \<comment> \<open>the \<open>try\<close> block of \<open>stop_irrigation\<close>\<close>
  "global_stop h cfg s =
     (if is_switch_control_method cfg
      then (Returned, turn_off_switches h (station_switch_entities cfg) s)
      else call_configured_service h cfg ''stop_sprinkle'' None None s)"

definition update_rank :: "config \<Rightarrow> engine \<Rightarrow> nat" where
  "update_rank cfg s =
     (if any_sprinkling (station_state s) (station_ids (num_stations cfg)) = Inr True then 3 else 1)"

function async_update_all_sensors :: "host \<Rightarrow> config \<Rightarrow> engine \<Rightarrow> outcome \<times> engine"
  and stop_irrigation :: "host \<Rightarrow> config \<Rightarrow> engine \<Rightarrow> outcome \<times> engine" where
  "async_update_all_sensors h cfg s =
     (case fetch_weather h cfg (daily_reset_if_due h cfg s) of
        (Returned, s2) \<Rightarrow>
          (case account_rain cfg s2 of
             (Returned, s3) \<Rightarrow>
               if is_raining_now s3 \<and> \<not> sprinkle_with_rain cfg then
                 (case any_sprinkling (station_state s3) (station_ids (num_stations cfg)) of
                    Inl e \<Rightarrow> (Raised e, s3)
                  | Inr sprinkling \<Rightarrow>
                      if sprinkling then
                        (case stop_irrigation h cfg s3 of
                           (Returned, s4) \<Rightarrow> finish_update h cfg s4
                         | (out, s4) \<Rightarrow> (out, s4))
                      else finish_update h cfg s3)
               else finish_update h cfg s3
           | (out, s3) \<Rightarrow> (out, s3))
      | (out, s2) \<Rightarrow> (out, s2))"
| "stop_irrigation h cfg s =
     (case global_stop h cfg s of
        (Returned, s1) \<Rightarrow>
          (let s2 = s1\<lparr>irrigation_stop_event := True\<rparr>;
               s3 = (if is_switch_control_method cfg
                     then save_persistent_data (s2\<lparr>active_irrigation := None\<rparr>) else s2) in
           case mark_all_stopped (station_state s3) (station_ids (num_stations cfg)) of
             (Returned, sts) \<Rightarrow> async_update_all_sensors h cfg (s3\<lparr>station_state := sts\<rparr>)
           | (out, sts) \<Rightarrow> (out, s3\<lparr>station_state := sts\<rparr>))
      | (Raised e, s1) \<Rightarrow> if e = APIConnectionError then (Returned, s1) else (Raised e, s1)
      | (Hangs, s1) \<Rightarrow> (Hangs, s1))"
  by pat_completeness auto

text \<open>
  The two functions call each other; the recursion ends because \<open>stop_irrigation\<close>
  updates the sensors only after it has marked every station Stopped, and the update
  stops the irrigation only when it finds a station Sprinkling.
\<close>

lemma reset_station_state:
  "station_state (snd (reset_rain_sprinkle_indicators h cfg s)) = station_state s"
  by (simp add: reset_rain_sprinkle_indicators_def save_persistent_data_def Let_def split: sum.splits)

lemma daily_reset_if_due_station_state:
  "station_state (daily_reset_if_due h cfg s) = station_state s"
  by (simp add: daily_reset_if_due_def reset_station_state)

lemma fetch_weather_station_state:
  "station_state (snd (fetch_weather h cfg s)) = station_state s"
  by (simp add: fetch_weather_def Let_def split: sum.splits prod.splits)

lemma account_rain_station_state:
  "station_state (snd (account_rain cfg s)) = station_state s"
  by (simp add: account_rain_def Let_def split: sum.splits)

lemma py_get_after_set:
  "py_set xs i v = Inr xs' \<Longrightarrow>
   py_get xs' j = (if py_index xs j = py_index xs i then Inr v else py_get xs j)"
  by (auto simp: py_set_def py_get_def py_index_def nth_list_update split: option.splits if_splits)

lemma py_get_error_after_set:
  "py_set xs i v = Inr xs' \<Longrightarrow> py_index xs' j = py_index xs j"
  by (auto simp: py_set_def py_index_def split: option.splits if_splits)

lemma mark_all_stopped_keeps:
  "mark_all_stopped sts ids = (Returned, sts') \<Longrightarrow> py_get sts (i - 1) = Inr ''Stopped''
   \<Longrightarrow> py_get sts' (i - 1) = Inr ''Stopped''"
proof (induction ids arbitrary: sts)
  case Nil then show ?case by simp
next
  case (Cons a ids)
  from Cons.prems(1) obtain m where m: "py_set sts (a - 1) ''Stopped'' = Inr m"
    "mark_all_stopped m ids = (Returned, sts')"
    by (auto split: sum.splits)
  have "py_get m (i - 1) = Inr ''Stopped''"
    using py_get_after_set[OF m(1), of "i - 1"] Cons.prems(2) by simp
  then show ?case using Cons.IH[OF m(2)] by simp
qed

lemma mark_all_stopped_sets:
  "mark_all_stopped sts ids = (Returned, sts') \<Longrightarrow> i \<in> set ids
   \<Longrightarrow> py_get sts' (i - 1) = Inr ''Stopped''"
proof (induction ids arbitrary: sts)
  case Nil then show ?case by simp
next
  case (Cons a ids)
  from Cons.prems(1) obtain m where m: "py_set sts (a - 1) ''Stopped'' = Inr m"
    "mark_all_stopped m ids = (Returned, sts')"
    by (auto split: sum.splits)
  show ?case
  proof (cases "i = a")
    case True
    have "py_get m (i - 1) = Inr ''Stopped''"
      using py_get_after_set[OF m(1), of "a - 1"] True by simp
    then show ?thesis using mark_all_stopped_keeps[OF m(2)] by simp
  next
    case False
    then have "i \<in> set ids" using Cons.prems(2) by simp
    then show ?thesis using Cons.IH[OF m(2)] by simp
  qed
qed

lemma any_sprinkling_all_stopped:
  "(\<And>i. i \<in> set ids \<Longrightarrow> py_get sts (i - 1) = Inr ''Stopped'') \<Longrightarrow> any_sprinkling sts ids = Inr False"
  by (induction ids) simp_all

lemma update_rank_after_mark:
  "mark_all_stopped (station_state s) (station_ids (num_stations cfg)) = (Returned, sts)
   \<Longrightarrow> update_rank cfg (s\<lparr>station_state := sts\<rparr>) = 1"
  using any_sprinkling_all_stopped[of "station_ids (num_stations cfg)" sts] mark_all_stopped_sets
  by (simp add: update_rank_def)

termination async_update_all_sensors
proof (relation "measure (\<lambda>x. case x of Inl (h, cfg, s) \<Rightarrow> update_rank cfg s | Inr y \<Rightarrow> 2)")
  show "wf (measure (\<lambda>x. case x of Inl (h, cfg, s) \<Rightarrow> update_rank cfg s | Inr y \<Rightarrow> 2))" by simp
next
  fix h cfg s x y x2 ya x2a x2b
  assume a: "(x, y) = fetch_weather h cfg (daily_reset_if_due h cfg s)" "x = Returned"
    "(x2, ya) = account_rain cfg y" "x2 = Returned"
    "is_raining_now ya \<and> \<not> sprinkle_with_rain cfg"
    "any_sprinkling (station_state ya) (station_ids (num_stations cfg)) = Inr x2b" "x2b"
  have "station_state ya = station_state y"
    using account_rain_station_state[of cfg y] a(3)[symmetric] by simp
  also have "\<dots> = station_state s"
    using fetch_weather_station_state[of h cfg "daily_reset_if_due h cfg s"] a(1)[symmetric]
    by (simp add: daily_reset_if_due_station_state)
  finally have "update_rank cfg s = 3" using a(6,7) by (simp add: update_rank_def)
  then show "(Inr (h, cfg, ya), Inl (h, cfg, s))
      \<in> measure (\<lambda>x. case x of Inl (h, cfg, s) \<Rightarrow> update_rank cfg s | Inr y \<Rightarrow> 2)" by simp
next
  fix h cfg s x y xa xb x2 ya
  assume a: "(x, y) = global_stop h cfg s" "x = Returned"
    "xa = y\<lparr>irrigation_stop_event := True\<rparr>"
    "xb = (if is_switch_control_method cfg then save_persistent_data (xa\<lparr>active_irrigation := None\<rparr>) else xa)"
    "(x2, ya) = mark_all_stopped (station_state xb) (station_ids (num_stations cfg))" "x2 = Returned"
  have "update_rank cfg (xb\<lparr>station_state := ya\<rparr>) = 1"
    using update_rank_after_mark[of xb cfg ya] a(5,6) by simp
  then show "(Inl (h, cfg, xb\<lparr>station_state := ya\<rparr>), Inr (h, cfg, s))
      \<in> measure (\<lambda>x. case x of Inl (h, cfg, s) \<Rightarrow> update_rank cfg s | Inr y \<Rightarrow> 2)" by simp
qed

declare async_update_all_sensors.simps [simp del] stop_irrigation.simps [simp del]

subsection \<open>Watering session (\<open>start_irrigation\<close>)\<close>

text \<open>
  The wait loop suspends at \<open>await sleep(1)\<close>, where other tasks of the event loop
  run. \<open>env i\<close> is what they do to the engine during the sleep of tick \<open>i\<close>; the
  clock advances by one second per tick.
\<close>

datatype loop_exit = Completed | Interrupted | Failed py_error

fun wait_loop ::
  "config \<Rightarrow> (nat \<Rightarrow> engine \<Rightarrow> engine) \<Rightarrow> int \<Rightarrow> nat \<Rightarrow> nat \<Rightarrow> engine
     \<Rightarrow> loop_exit \<times> engine" where
  \<comment> \<open>\<open>for _ in range(duration * 60)\<close>: \<open>i\<close> ticks done, \<open>k\<close> still to do\<close>
  "wait_loop cfg env station i 0 s = (Completed, s)"
| "wait_loop cfg env station i (Suc k) s =
     (if irrigation_stop_event s then (Interrupted, s)
      else
        (let s1 = env i (s\<lparr>clock := clock s + 1\<rparr>) in
         case py_get (water_flow_rate s1) (station - 1) of
           Inl e \<Rightarrow> (Failed e, s1)
         | Inr flow_rate \<Rightarrow>
             (let s2 = s1\<lparr>total_water_consumption := total_water_consumption s1 + flow_rate / 60\<rparr> in
              case py_get (station_areas cfg) (station - 1) of
                Inl e \<Rightarrow> (Failed e, s2)
              | Inr a \<Rightarrow>
                  (let mm_per_minute = flow_rate / area_or_1 a in
                   case py_get (sprinkle_total_amount_today s2) (station - 1) of
                     Inl e \<Rightarrow> (Failed e, s2)
                   | Inr applied \<Rightarrow>
                       (case py_set (sprinkle_total_amount_today s2) (station - 1)
                               (applied + mm_per_minute / 60) of
                          Inl e \<Rightarrow> (Failed e, s2)
                        | Inr applied' \<Rightarrow>
                            wait_loop cfg env station (Suc i) k
                              (s2\<lparr>sprinkle_total_amount_today := applied'\<rparr>))))))"

definition begin_watering :: "host \<Rightarrow> config \<Rightarrow> int \<Rightarrow> int \<Rightarrow> engine \<Rightarrow> outcome \<times> engine" where
  \<comment> \<open>the \<open>try\<close> block of \<open>start_irrigation\<close>\<close>
  "begin_watering h cfg station duration s =
     (if is_switch_control_method cfg then
        (case turn_on_station_switch h cfg station s of
           (Returned, s1) \<Rightarrow>
             (let now = clock s1;
                  end_at = now + duration * 60;
                  s2 = save_persistent_data
                         (s1\<lparr>active_irrigation :=
                               Some \<lparr>session_station = Some station,
                                     session_start_at = isoformat h now,
                                     session_end_at = Some (isoformat h end_at),
                                     session_duration_minutes = duration\<rparr>\<rparr>) in
              (Returned, s2\<lparr>armed_stops := armed_stops s2 @ [(station, duration * 60)]\<rparr>))
         | (out, s1) \<Rightarrow> (out, s1))
      else call_configured_service h cfg ''sprinkle_station'' (Some station) (Some duration) s)"

definition end_watering :: "host \<Rightarrow> config \<Rightarrow> int \<Rightarrow> engine \<Rightarrow> outcome \<times> engine" where
  \<comment> \<open>\<open>start_irrigation\<close> after the wait loop: switch off, forget the session, note the
      time, publish\<close>
  "end_watering h cfg station s =
     (let s1 = (if is_switch_control_method cfg
                then save_persistent_data
                       ((snd (turn_off_station_switch h cfg station s))\<lparr>active_irrigation := None\<rparr>)
                else s) in
      async_update_all_sensors h cfg (s1\<lparr>last_sprinkle := Some (clock s1)\<rparr>))"

definition start_irrigation ::
  "host \<Rightarrow> config \<Rightarrow> (nat \<Rightarrow> engine \<Rightarrow> engine) \<Rightarrow> int \<Rightarrow> int option \<Rightarrow> engine
     \<Rightarrow> outcome \<times> engine" where
  "start_irrigation h cfg env station minutes s =
     (let duration = (case minutes of Some m \<Rightarrow> m | None \<Rightarrow> irrigation_manual_duration s) in
      case begin_watering h cfg station duration (s\<lparr>irrigation_stop_event := False\<rparr>) of
        (Raised e, s1) \<Rightarrow> if e = APIConnectionError then (Returned, s1) else (Raised e, s1)
      | (Hangs, s1) \<Rightarrow> (Hangs, s1)
      | (Returned, s1) \<Rightarrow>
          (case py_set (station_state s1) (station - 1) ''Sprinkling'' of
             Inl e \<Rightarrow> (Raised e, s1)
           | Inr st \<Rightarrow>
               (case async_update_all_sensors h cfg (s1\<lparr>station_state := st\<rparr>) of
                  (Returned, s2) \<Rightarrow>
                    (case wait_loop cfg env station 0 (nat (duration * 60)) s2 of
                       (Failed e, s3) \<Rightarrow> (Raised e, s3)
                     | (Interrupted, s3) \<Rightarrow> end_watering h cfg station s3
                     | (Completed, s3) \<Rightarrow>
                         (case py_set (station_state s3) (station - 1) ''Stopped'' of
                            Inl e \<Rightarrow> (Raised e, s3)
                          | Inr st' \<Rightarrow> end_watering h cfg station (s3\<lparr>station_state := st'\<rparr>)))
                | (out, s2) \<Rightarrow> (out, s2))))"

subsection \<open>Watering cycle (\<open>run_watering_cycle\<close>)\<close>






subsection \<open>The engine's operations\<close>





subsection \<open>Example hosts and configurations\<close>

definition failing_host :: host where
  \<comment> \<open>every service call raises; no weather, no soil sensor\<close>
  "failing_host =
     \<lparr>call_fails = (\<lambda>n c. True), float_parses = (\<lambda>v. False),
      round_tie_up = (\<lambda>x. True),
      weather_will_it_rain = (\<lambda>t. Inl APIConnectionError),
      weather_is_raining = (\<lambda>t. Inl APIConnectionError),
      weather_total_rain_forecast = (\<lambda>t. Inl APIConnectionError),
      soil_moisture_state = (\<lambda>t. None), parse_float = (\<lambda>v. None),
      isoformat = (\<lambda>t. ''2024-06-03T04:00:00''),
      fromisoformat = (\<lambda>v. if v = ''2024-06-03T04:00:00'' then Some (19877 * 86400 + 4 * 3600)
                            else None)\<rparr>"

definition reliable_host :: host where
  \<comment> \<open>as \<open>failing_host\<close>, but every service call succeeds\<close>
  "reliable_host = failing_host\<lparr>call_fails := (\<lambda>n c. False)\<rparr>"

definition three_switch_config :: config where
  "three_switch_config =
     scenario_config\<lparr>station_switch_entities := [''switch.valve_1'', ''switch.valve_2'', ''switch.valve_3''],
                     num_stations := 3, station_areas := [10, 10, 10]\<rparr>"

definition stale_session :: "int \<Rightarrow> active_session" where
  \<comment> \<open>a session of the given station that ended at 04:00, an hour before the scenario's
      clock\<close>
  "stale_session station =
     \<lparr>session_station = Some station, session_start_at = ''2024-06-03T03:50:00'',
      session_end_at = Some ''2024-06-03T04:00:00'', session_duration_minutes = 10\<rparr>"

definition three_station_engine :: "int \<Rightarrow> engine" where
  \<comment> \<open>three stations, restarted at 05:00 with the stale session of the given station in
      its store\<close>
  "three_station_engine station =
     scenario_engine\<lparr>station_state := [''Stopped'', ''Stopped'', ''Stopped''],
                     water_flow_rate := [12, 12, 12],
                     sprinkle_total_amount_today := [0, 0, 0],
                     sprinkle_target_amount_today := [24, 24, 24],
                     forecasted_sprinkle_today := [24, 24, 24],
                     active_irrigation := Some (stale_session station)\<rparr>"

definition service_config :: config where
  \<comment> \<open>the scenario's station driven by configured actions\<close>
  "service_config =
     scenario_config\<lparr>irrigation_control_method := ''service'',
                     service_actions :=
                       [(''sprinkle_station'',
                         \<lparr>enabled = Some True, service = Some ''solem_toolkit.sprinkle'',
                          params = [\<lparr>param_name = Some ''station'', param_type = Some ''station'',
                                     param_value = None\<rparr>,
                                    \<lparr>param_name = Some ''minutes'', param_type = Some ''time'',
                                     param_value = None\<rparr>]\<rparr>),
                        (''stop_sprinkle'',
                         \<lparr>enabled = Some True, service = Some ''solem_toolkit.stop'', params = []\<rparr>)]\<rparr>"


definition same_water :: "engine \<Rightarrow> engine \<Rightarrow> bool" where
  \<comment> \<open>the second state has the total consumption and the flow rates of the first\<close>
  "same_water s s' =
     (total_water_consumption s' = total_water_consumption s \<and> water_flow_rate s' = water_flow_rate s)"


definition halfway_config :: config where
  \<comment> \<open>the scenario's station with an area of 160 square metres\<close>
  "halfway_config = scenario_config\<lparr>station_areas := [160]\<rparr>"

definition halfway_month :: month_config where
  \<comment> \<open>7 minutes per run, one run a day: (12 / 160) times 7 is 0.525 mm\<close>
  "halfway_month = \<lparr>interval_days = Some 2, hours = [''06:00''], stations = [(1, 7)]\<rparr>"

definition halfway_engine :: engine where
  "halfway_engine = scenario_engine\<lparr>schedule := replicate 12 halfway_month\<rparr>"

section \<open>Weather providers: verified properties\<close>

lemma wf_block_owm:
  "block_start b = Some x \<Longrightarrow> \<exists>s. dt_txt b = Some s \<and> s \<noteq> [] \<and> split_dt_txt_owm s = Inr x \<and> split_dt_txt_pw s = Inr x"
  by (auto simp: block_start_def split: option.splits sum.splits if_splits)

lemma relevant_forecasts_owm_total:
  "list_all well_formed_block forecast \<Longrightarrow> \<exists>r. relevant_forecasts_owm t cb forecast = Inr r"
proof (induction forecast)
  case Nil show ?case by simp
next
  case (Cons b bs)
  then obtain x where x: "block_start b = Some x" by (auto simp: well_formed_block_def)
  obtain d h where dh: "x = (d, h)" by (cases x)
  from wf_block_owm[OF x] obtain s where s: "dt_txt b = Some s" "split_dt_txt_owm s = Inr x" by blast
  from Cons obtain r where r: "relevant_forecasts_owm t cb bs = Inr r" by auto
  show ?case using s r dh by simp
qed

lemma py_max_block_hours: "0 \<le> h \<Longrightarrow> \<exists>cb. py_max [x \<leftarrow> block_hours_owm. x \<le> h] = Inr cb"
  by (simp add: py_max_def block_hours_owm_def)

lemma will_it_rain_owm_total:
  "0 \<le> h \<Longrightarrow> list_all well_formed_block forecast \<Longrightarrow> \<exists>w. will_it_rain_owm t h forecast = Inr w"
proof -
  assume a: "0 \<le> h" "list_all well_formed_block forecast"
  from py_max_block_hours[OF a(1)] obtain cb where cb: "py_max [x \<leftarrow> block_hours_owm. x \<le> h] = Inr cb" by blast
  from relevant_forecasts_owm_total[OF a(2), of t cb] obtain r where "relevant_forecasts_owm t cb forecast = Inr r" by blast
  with cb show ?thesis by (simp add: will_it_rain_owm_def)
qed

lemma total_rain_loop_owm_spec:
  "list_all well_formed_block forecast \<Longrightarrow>
   total_rain_loop_owm t now forecast acc = Inr (acc + spec_total_rain t now forecast)"
proof (induction forecast arbitrary: acc)
  case Nil show ?case by (simp add: spec_total_rain_def)
next
  case (Cons b bs)
  then obtain x where x: "block_start b = Some x" by (auto simp: well_formed_block_def)
  obtain d h where dh: "x = (d, h)" by (cases x)
  from wf_block_owm[OF x] obtain s where s: "dt_txt b = Some s" "split_dt_txt_owm s = Inr x" by blast
  have IH: "\<And>acc. total_rain_loop_owm t now bs acc = Inr (acc + spec_total_rain t now bs)"
    using Cons by simp
  show ?case using s dh x
    by (simp add: IH spec_total_rain_def spec_block_contribution_def block_mm_def Let_def)
qed

lemma total_rain_loop_pw_spec:
  "list_all well_formed_block forecast \<Longrightarrow>
   total_rain_loop_pw t now forecast acc = Inr (acc + spec_total_rain t now forecast)"
proof (induction forecast arbitrary: acc)
  case Nil show ?case by (simp add: spec_total_rain_def)
next
  case (Cons b bs)
  then obtain x where x: "block_start b = Some x" by (auto simp: well_formed_block_def)
  obtain d h where dh: "x = (d, h)" by (cases x)
  from wf_block_owm[OF x] obtain s where s: "dt_txt b = Some s" "s \<noteq> []" "split_dt_txt_pw s = Inr x" by blast
  have IH: "\<And>acc. total_rain_loop_pw t now bs acc = Inr (acc + spec_total_rain t now bs)"
    using Cons by simp
  show ?case using s dh x
    by (simp add: IH spec_total_rain_def spec_block_contribution_def block_mm_def Let_def)
qed

text \<open>
  C4. On a forecast whose blocks carry a readable start, both providers return the sum,
  over the blocks dated today that have not ended, of the block's mm, the running block
  scaled by the share of its 180 minutes still to come. A block that starts at the
  current minute counts in full, and a block that is 90 minutes old counts for half.
\<close>

theorem total_rain_forecast_prorated:
  assumes "list_all well_formed_block forecast" and "0 \<le> hour"
  shows "get_total_rain_forecast_for_today_owm today_str hour minute forecast
           = Inr (spec_total_rain today_str (hour * 60 + minute) forecast)
       \<and> get_total_rain_forecast_for_today_pw today_str hour minute forecast
           = Inr (spec_total_rain today_str (hour * 60 + minute) forecast)
       \<and> (block_start b = Some (today_str, h) \<and> 0 \<le> h \<longrightarrow>
             get_total_rain_forecast_for_today_owm today_str h 0 [b] = Inr (block_mm b)
           \<and> get_total_rain_forecast_for_today_pw today_str h 0 [b] = Inr (block_mm b)
           \<and> get_total_rain_forecast_for_today_owm today_str (h + 1) 30 [b] = Inr (block_mm b / 2)
           \<and> get_total_rain_forecast_for_today_pw today_str (h + 1) 30 [b] = Inr (block_mm b / 2))"
proof -
  have owm: "\<And>fc h m. list_all well_formed_block fc \<Longrightarrow> 0 \<le> h \<Longrightarrow>
      get_total_rain_forecast_for_today_owm today_str h m fc = Inr (spec_total_rain today_str (h * 60 + m) fc)"
  proof -
    fix fc h m assume a: "list_all well_formed_block fc" "(0::int) \<le> h"
    from will_it_rain_owm_total[OF a(2) a(1)] obtain w where "will_it_rain_owm today_str h fc = Inr w" by blast
    then show "get_total_rain_forecast_for_today_owm today_str h m fc = Inr (spec_total_rain today_str (h * 60 + m) fc)"
      by (simp add: get_total_rain_forecast_for_today_owm_def total_rain_loop_owm_spec[OF a(1)])
  qed
  have pw: "\<And>fc h m. list_all well_formed_block fc \<Longrightarrow>
      get_total_rain_forecast_for_today_pw today_str h m fc = Inr (spec_total_rain today_str (h * 60 + m) fc)"
    by (simp add: get_total_rain_forecast_for_today_pw_def total_rain_loop_pw_spec)
  have single: "\<And>b h. block_start b = Some (today_str, h) \<Longrightarrow>
       spec_total_rain today_str (h * 60 + 0) [b] = block_mm b
     \<and> spec_total_rain today_str ((h + 1) * 60 + 30) [b] = block_mm b / 2"
    by (simp add: spec_total_rain_def spec_block_contribution_def)
  show ?thesis
  proof (intro conjI impI)
    show "get_total_rain_forecast_for_today_owm today_str hour minute forecast
           = Inr (spec_total_rain today_str (hour * 60 + minute) forecast)"
      using owm assms by blast
    show "get_total_rain_forecast_for_today_pw today_str hour minute forecast
           = Inr (spec_total_rain today_str (hour * 60 + minute) forecast)"
      using pw assms by blast
  next
    assume a: "block_start b = Some (today_str, h) \<and> 0 \<le> h"
    then have wf: "list_all well_formed_block [b]" by (simp add: well_formed_block_def)
    show "get_total_rain_forecast_for_today_owm today_str h 0 [b] = Inr (block_mm b)"
      using owm[OF wf, of h 0] single[of b h] a by simp
    show "get_total_rain_forecast_for_today_pw today_str h 0 [b] = Inr (block_mm b)"
      using pw[OF wf, of h 0] single[of b h] a by simp
    show "get_total_rain_forecast_for_today_owm today_str (h + 1) 30 [b] = Inr (block_mm b / 2)"
      using owm[OF wf, of "h + 1" 30] single[of b h] a by simp
    show "get_total_rain_forecast_for_today_pw today_str (h + 1) 30 [b] = Inr (block_mm b / 2)"
      using pw[OF wf, of "h + 1" 30] single[of b h] a by simp
  qed
qed


lemmas py_text_defs = py_int_def py_strip_def is_space_def py_isdigit_def is_digit_def
  is_digit_char_def digits_value_def
lemmas block_start_defs = block_start_def split_dt_txt_owm_def split_dt_txt_pw_def py_text_defs

theorem total_rain_forecast_prorated_witness:
  "list_all well_formed_block example_forecast \<and> (0::int) \<le> 10
   \<and> get_total_rain_forecast_for_today_owm ''2024-06-01'' 10 30 example_forecast = Inr (7 / 2)
   \<and> get_total_rain_forecast_for_today_pw ''2024-06-01'' 10 30 example_forecast = Inr (7 / 2)
   \<and> get_total_rain_forecast_for_today_owm ''2024-06-01'' 9 0 [hd example_forecast] = Inr 3
   \<and> get_total_rain_forecast_for_today_pw ''2024-06-01'' 10 30 [hd example_forecast] = Inr (3 / 2)"
proof -
  have wf: "list_all well_formed_block example_forecast"
    by (simp add: example_forecast_def well_formed_block_def block_start_defs)
  have h: "(0::int) \<le> 10" by simp
  have bs: "block_start (hd example_forecast) = Some (''2024-06-01'', 9)"
    by (simp add: example_forecast_def block_start_defs)
  have v: "spec_total_rain ''2024-06-01'' (10 * 60 + 30) example_forecast = 7 / 2"
    by (simp add: example_forecast_def spec_total_rain_def spec_block_contribution_def block_mm_def block_start_defs)
  have m: "block_mm (hd example_forecast) = 3"
    by (simp add: example_forecast_def block_mm_def)
  from total_rain_forecast_prorated[OF wf h, of "''2024-06-01''" 30 "hd example_forecast" 9] v bs m wf
  show ?thesis by simp
qed

text \<open>
  C7. \<open>will_it_rain\<close> evaluated where it departs from "some block of today that starts
  at or after the current 3-hour boundary has a probability above one half": at 22:00 the
  OpenWeatherMap provider takes 18 for the current block, because its block hours stop at
  18, and reports rain for the block that ended at 21:00; the PirateWeather provider
  looks at every block of the list, so at 03:00 the block that started at 00:00 still
  makes it report rain.
\<close>

theorem will_it_rain_ended_block_counts:
  "will_it_rain_owm ''2024-06-01'' 22
     [\<lparr>dt_txt = Some ''2024-06-01 18:00:00'', pop = Some (9 / 10), rain_3h = None\<rparr>] = Inr True
   \<and> spec_will_rain ''2024-06-01'' 22
     [\<lparr>dt_txt = Some ''2024-06-01 18:00:00'', pop = Some (9 / 10), rain_3h = None\<rparr>] = False
   \<and> will_it_rain_pw
     [\<lparr>dt_txt = Some ''2024-06-01 00:00:00'', pop = Some (9 / 10), rain_3h = None\<rparr>,
      \<lparr>dt_txt = Some ''2024-06-01 03:00:00'', pop = Some (1 / 10), rain_3h = None\<rparr>] = Inr True
   \<and> spec_will_rain ''2024-06-01'' 3
     [\<lparr>dt_txt = Some ''2024-06-01 00:00:00'', pop = Some (9 / 10), rain_3h = None\<rparr>,
      \<lparr>dt_txt = Some ''2024-06-01 03:00:00'', pop = Some (1 / 10), rain_3h = None\<rparr>] = False"
  by (simp add: will_it_rain_owm_def will_it_rain_pw_def spec_will_rain_def py_max_def
      block_hours_owm_def pop_above_half_owm_def block_start_defs)

section \<open>Daily target and run duration\<close>

lemma py_index_in_range:
  "0 \<le> i \<Longrightarrow> i < int (length xs) \<Longrightarrow> py_index xs i = Some (nat i)"
  by (simp add: py_index_def Let_def)

lemma py_get_in_range:
  "0 \<le> i \<Longrightarrow> i < int (length xs) \<Longrightarrow> py_get xs i = Inr (xs ! nat i)"
  by (simp add: py_get_def py_index_in_range)

lemma py_set_in_range:
  "0 \<le> i \<Longrightarrow> i < int (length xs) \<Longrightarrow> py_set xs i v = Inr (xs[nat i := v])"
  by (simp add: py_set_def py_index_in_range)

lemma target_loop_spec:
  assumes "\<forall>i \<in> set ids. 1 \<le> i \<and> i \<le> int n" and "distinct ids"
    and "length target = n" and "length (water_flow_rate s) = n" and "length (station_areas cfg) = n"
  shows "\<exists>t. target_loop h cfg s sts occ ids target = Inr t \<and> length t = n
           \<and> (\<forall>i. 1 \<le> i \<and> i \<le> int n \<longrightarrow>
                 t ! nat (i - 1) =
                   (if i \<in> set ids \<and> station_minutes sts i * occ > 0
                    then target_formula h cfg s sts occ i else target ! nat (i - 1)))"
  using assms
proof (induction ids arbitrary: target)
  case Nil
  then show ?case by simp
next
  case (Cons a ids)
  have a: "1 \<le> a" "a \<le> int n" using Cons.prems(1) by auto
  have rest: "\<forall>i \<in> set ids. 1 \<le> i \<and> i \<le> int n" "distinct ids" "a \<notin> set ids"
    using Cons.prems(1,2) by auto
  show ?case
  proof (cases "station_minutes sts a * occ > 0")
    case False
    from Cons.IH[OF rest(1,2) Cons.prems(3,4,5)] obtain t where
      t: "target_loop h cfg s sts occ ids target = Inr t" "length t = n"
         "\<forall>i. 1 \<le> i \<and> i \<le> int n \<longrightarrow> t ! nat (i - 1) =
             (if i \<in> set ids \<and> station_minutes sts i * occ > 0
              then target_formula h cfg s sts occ i else target ! nat (i - 1))" by blast
    show ?thesis using False t by (auto simp: Let_def)
  next
    case True
    let ?v = "target_formula h cfg s sts occ a"
    let ?target' = "target[nat (a - 1) := ?v]"
    have g1: "py_get (water_flow_rate s) (a - 1) = Inr (water_flow_rate s ! nat (a - 1))"
      using a Cons.prems(4) by (intro py_get_in_range) auto
    have g2: "py_get (station_areas cfg) (a - 1) = Inr (station_areas cfg ! nat (a - 1))"
      using a Cons.prems(5) by (intro py_get_in_range) auto
    have g3: "\<And>v. py_set target (a - 1) v = Inr (target[nat (a - 1) := v])"
      using a Cons.prems(3) by (intro py_set_in_range) auto
    have len: "length ?target' = n" using Cons.prems(3) by simp
    from Cons.IH[OF rest(1,2) len Cons.prems(4,5)] obtain t where
      t: "target_loop h cfg s sts occ ids ?target' = Inr t" "length t = n"
         "\<forall>i. 1 \<le> i \<and> i \<le> int n \<longrightarrow> t ! nat (i - 1) =
             (if i \<in> set ids \<and> station_minutes sts i * occ > 0
              then target_formula h cfg s sts occ i else ?target' ! nat (i - 1))" by blast
    have step: "target_loop h cfg s sts occ (a # ids) target = Inr t"
      using True g1 g2 g3 t(1) by (simp add: Let_def target_formula_def)
    have pt: "\<And>i. 1 \<le> i \<Longrightarrow> i \<le> int n \<Longrightarrow>
        ?target' ! nat (i - 1) = (if i = a then ?v else target ! nat (i - 1))"
    proof -
      fix i :: int assume i: "1 \<le> i" "i \<le> int n"
      have "nat (i - 1) < length target" using i Cons.prems(3) by auto
      moreover have "nat (i - 1) = nat (a - 1) \<longleftrightarrow> i = a" using i a by auto
      ultimately show "?target' ! nat (i - 1) = (if i = a then ?v else target ! nat (i - 1))"
        by (auto simp: nth_list_update)
    qed
    show ?thesis
    proof (intro exI conjI allI impI)
      show "target_loop h cfg s sts occ (a # ids) target = Inr t" by (rule step)
      show "length t = n" by (rule t(2))
      fix i assume i: "1 \<le> i \<and> i \<le> int n"
      show "t ! nat (i - 1) =
          (if i \<in> set (a # ids) \<and> station_minutes sts i * occ > 0
           then target_formula h cfg s sts occ i else target ! nat (i - 1))"
        using t(3) i pt[of i] True rest(3) by auto
    qed
  qed
qed

lemma station_ids_mem: "i \<in> set (station_ids n) \<longleftrightarrow> 1 \<le> i \<and> i \<le> int n"
proof -
  have eq: "set (station_ids n) = int ` {k. 1 \<le> k \<and> k \<le> n}"
    unfolding station_ids_def by auto
  show ?thesis
  proof
    assume "i \<in> set (station_ids n)"
    then show "1 \<le> i \<and> i \<le> int n" unfolding eq by auto
  next
    assume a: "1 \<le> i \<and> i \<le> int n"
    have "i = int (nat i)" "nat i \<in> {k. 1 \<le> k \<and> k \<le> n}" using a by auto
    then show "i \<in> set (station_ids n)" unfolding eq by (rule image_eqI)
  qed
qed

lemma station_ids_distinct: "distinct (station_ids n)"
  unfolding station_ids_def by (simp add: distinct_map inj_on_def)


lemma py_round2_near: "rounded_to_2_decimals (py_round2 tie x) x"
proof -
  define q where "q = x * 100"
  define k where "k = py_round_int (\<lambda>q. tie (q / 100)) q"
  have fl: "of_int \<lfloor>q\<rfloor> \<le> q" "q < of_int \<lfloor>q\<rfloor> + 1" by linarith+
  have near: "\<bar>of_int k - q\<bar> \<le> 1 / 2"
  proof -
    consider "q - of_int \<lfloor>q\<rfloor> < 1 / 2" | "1 / 2 < q - of_int \<lfloor>q\<rfloor>"
      | "q - of_int \<lfloor>q\<rfloor> = 1 / 2" by linarith
    then show ?thesis
    proof cases
      case 1
      then have "k = \<lfloor>q\<rfloor>" by (simp add: k_def py_round_int_def Let_def)
      then show ?thesis using fl 1 by simp
    next
      case 2
      then have "k = \<lfloor>q\<rfloor> + 1" by (simp add: k_def py_round_int_def Let_def)
      then show ?thesis using fl 2 by simp
    next
      case 3
      then have "k = \<lfloor>q\<rfloor> \<or> k = \<lfloor>q\<rfloor> + 1" by (simp add: k_def py_round_int_def Let_def)
      then show ?thesis using fl 3 by auto
    qed
  qed
  have r: "py_round2 tie x = of_int k / 100" by (simp add: py_round2_def k_def q_def)
  have "\<bar>of_int k / 100 - x\<bar> = \<bar>of_int k - q\<bar> / 100"
    by (simp add: q_def abs_if field_simps)
  then have "\<bar>of_int k / 100 - x\<bar> \<le> 1 / 200" using near by simp
  then show ?thesis unfolding r by (simp add: rounded_to_2_decimals_def)
qed

lemma too_soon_as_computed:
  "too_soon_since_last_event s mc
     = (case last_event (last_rain s) (last_sprinkle s) of
          None \<Rightarrow> False
        | Some e \<Rightarrow> date_of (clock s) - date_of e < get_interval_days mc)"
  by (cases "last_rain s"; cases "last_sprinkle s")
     (simp_all add: too_soon_since_last_event_def recorded_events_def last_event_def
        get_interval_days_def max.commute)

text \<open>
  C2. With twelve months in the schedule and one flow rate and one area per station, the
  daily target is 0.0 for every station when the most recent of last rain and last
  sprinkle is fewer than \<open>interval_days\<close> days before today, or when the month has no
  watering hours. Otherwise a station with positive minutes per run gets
  (flow / area) times (minutes times occurrences) rounded to 2 decimals (a whole number
  of hundredths at most 0.005 away), the area taken as 1 when it is zero. At exactly
  \<open>interval_days\<close> days the gate is open and that target is computed; it is positive as
  soon as the unrounded amount exceeds 0.005 mm.
\<close>

theorem daily_target_amounts:
  assumes "py_get (schedule s) (month_of_day (date_of (clock s)) - 1) = Inr mc"
    and "length (water_flow_rate s) = num_stations cfg"
    and "length (station_areas cfg) = num_stations cfg"
  shows "(too_soon_since_last_event s mc \<or> watering_hours_of mc = []
            \<longrightarrow> calculate_sprinkle_target_amounts h cfg s = Inr (replicate (num_stations cfg) 0))
       \<and> (\<not> too_soon_since_last_event s mc \<and> watering_hours_of mc \<noteq> []
            \<and> 1 \<le> station_id \<and> station_id \<le> int (num_stations cfg)
            \<and> map_of (stations mc) station_id = Some minutes \<and> 0 < minutes
            \<longrightarrow> (\<exists>target. calculate_sprinkle_target_amounts h cfg s = Inr target
                   \<and> length target = num_stations cfg
                   \<and> rounded_to_2_decimals (target ! nat (station_id - 1))
                        (spec_target_amount cfg s mc minutes station_id)))
       \<and> (recorded_events s \<noteq> []
            \<and> date_of (clock s) - date_of (Max (set (recorded_events s)))
                = (case interval_days mc of None \<Rightarrow> 2 | Some d \<Rightarrow> d)
            \<and> watering_hours_of mc \<noteq> []
            \<and> 1 \<le> station_id \<and> station_id \<le> int (num_stations cfg)
            \<and> map_of (stations mc) station_id = Some minutes \<and> 0 < minutes
            \<longrightarrow> (\<exists>target. calculate_sprinkle_target_amounts h cfg s = Inr target
                   \<and> rounded_to_2_decimals (target ! nat (station_id - 1))
                        (spec_target_amount cfg s mc minutes station_id)
                   \<and> (1 / 200 < spec_target_amount cfg s mc minutes station_id
                        \<longrightarrow> 0 < target ! nat (station_id - 1))))"
proof -
  let ?n = "num_stations cfg"
  let ?calc = "calculate_sprinkle_target_amounts h cfg s"
  have zero: "too_soon_since_last_event s mc \<or> watering_hours_of mc = []
      \<Longrightarrow> ?calc = Inr (replicate ?n 0)"
    using assms(1)
    by (auto simp: calculate_sprinkle_target_amounts_def Let_def too_soon_as_computed
        watering_hours_of_def month_config_falsy_def split: option.splits)
  have nonzero: "\<exists>target. ?calc = Inr target \<and> length target = ?n
        \<and> rounded_to_2_decimals (target ! nat (station_id - 1))
             (spec_target_amount cfg s mc minutes station_id)"
    if a: "\<not> too_soon_since_last_event s mc" "watering_hours_of mc \<noteq> []"
       "1 \<le> station_id" "station_id \<le> int ?n"
       "map_of (stations mc) station_id = Some minutes" "0 < minutes"
  proof -
    let ?occ = "int (length (watering_hours_of mc))"
    have ids: "\<forall>i \<in> set (station_ids ?n). 1 \<le> i \<and> i \<le> int ?n"
      by (simp add: station_ids_mem)
    from target_loop_spec[OF ids station_ids_distinct _ assms(2,3), of "replicate ?n 0" h "stations mc" ?occ]
    obtain t where t: "target_loop h cfg s (stations mc) ?occ (station_ids ?n) (replicate ?n 0) = Inr t"
      "length t = ?n"
      "\<forall>i. 1 \<le> i \<and> i \<le> int ?n \<longrightarrow> t ! nat (i - 1) =
          (if i \<in> set (station_ids ?n) \<and> station_minutes (stations mc) i * ?occ > 0
           then target_formula h cfg s (stations mc) ?occ i else replicate ?n 0 ! nat (i - 1))"
      by auto
    have nf: "\<not> month_config_falsy mc" using a(2)
      by (auto simp: month_config_falsy_def watering_hours_of_def)
    have calc: "?calc = Inr t"
      using assms(1) a(1,2) nf t(1)
      by (auto simp: calculate_sprinkle_target_amounts_def Let_def too_soon_as_computed
          watering_hours_of_def split: option.splits)
    have sm: "station_minutes (stations mc) station_id = minutes"
      using a(5) by (simp add: station_minutes_def)
    have occpos: "0 < ?occ" using a(2) by simp
    have pos: "station_minutes (stations mc) station_id * ?occ > 0"
      using a(6) occpos sm by (simp add: zero_less_mult_iff)
    have "t ! nat (station_id - 1) = target_formula h cfg s (stations mc) ?occ station_id"
      using t(3) a(3,4) pos by (simp add: station_ids_mem)
    also have "\<dots> = py_round2 (round_tie_up h) (spec_target_amount cfg s mc minutes station_id)"
      by (simp add: target_formula_def spec_target_amount_def area_or_1_def sm Let_def)
    finally have "rounded_to_2_decimals (t ! nat (station_id - 1))
        (spec_target_amount cfg s mc minutes station_id)"
      by (simp add: py_round2_near)
    with calc t(2) show ?thesis by blast
  qed
  have exact: "\<not> too_soon_since_last_event s mc"
    if "date_of (clock s) - date_of (Max (set (recorded_events s)))
          = (case interval_days mc of None \<Rightarrow> 2 | Some d \<Rightarrow> d)"
    using that by (simp add: too_soon_since_last_event_def)
  have positive: "0 < r" if "rounded_to_2_decimals r x" "1 / 200 < x" for r x :: rat
    using that by (simp add: rounded_to_2_decimals_def abs_if split: if_splits)
  show ?thesis
  proof (intro conjI impI)
    assume "too_soon_since_last_event s mc \<or> watering_hours_of mc = []"
    then show "?calc = Inr (replicate ?n 0)" by (rule zero)
  next
    assume a: "\<not> too_soon_since_last_event s mc \<and> watering_hours_of mc \<noteq> []
            \<and> 1 \<le> station_id \<and> station_id \<le> int ?n
            \<and> map_of (stations mc) station_id = Some minutes \<and> 0 < minutes"
    then show "\<exists>target. ?calc = Inr target \<and> length target = ?n
        \<and> rounded_to_2_decimals (target ! nat (station_id - 1))
             (spec_target_amount cfg s mc minutes station_id)"
      using nonzero by blast
  next
    assume a: "recorded_events s \<noteq> []
            \<and> date_of (clock s) - date_of (Max (set (recorded_events s)))
                = (case interval_days mc of None \<Rightarrow> 2 | Some d \<Rightarrow> d)
            \<and> watering_hours_of mc \<noteq> []
            \<and> 1 \<le> station_id \<and> station_id \<le> int ?n
            \<and> map_of (stations mc) station_id = Some minutes \<and> 0 < minutes"
    then have ns: "\<not> too_soon_since_last_event s mc" using exact by blast
    from nonzero[OF ns] a obtain target where
      t: "?calc = Inr target"
         "rounded_to_2_decimals (target ! nat (station_id - 1))
            (spec_target_amount cfg s mc minutes station_id)"
      by blast
    have "1 / 200 < spec_target_amount cfg s mc minutes station_id
          \<longrightarrow> 0 < target ! nat (station_id - 1)"
      using positive[OF t(2)] by blast
    with t show "\<exists>target. ?calc = Inr target
                   \<and> rounded_to_2_decimals (target ! nat (station_id - 1))
                        (spec_target_amount cfg s mc minutes station_id)
                   \<and> (1 / 200 < spec_target_amount cfg s mc minutes station_id
                        \<longrightarrow> 0 < target ! nat (station_id - 1))" by blast
  qed
qed

lemmas scenario_defs = scenario_config_def scenario_month_def scenario_engine_def

lemma scenario_month_lookup:
  "py_get (schedule scenario_engine) (month_of_day (date_of (clock scenario_engine)) - 1) = Inr scenario_month"
  by (simp add: scenario_engine_def py_get_def py_index_def month_of_day_def date_of_def Let_def)

theorem daily_target_amounts_witness:
  "py_get (schedule scenario_engine) (month_of_day (date_of (clock scenario_engine)) - 1) = Inr scenario_month
   \<and> length (water_flow_rate scenario_engine) = num_stations scenario_config
   \<and> length (station_areas scenario_config) = num_stations scenario_config
   \<and> recorded_events scenario_engine = [19875 * 86400 + 18 * 3600]
   \<and> date_of (clock scenario_engine) - date_of (19875 * 86400 + 18 * 3600) = 2
   \<and> \<not> too_soon_since_last_event scenario_engine scenario_month
   \<and> watering_hours_of scenario_month \<noteq> []
   \<and> map_of (stations scenario_month) 1 = Some 10
   \<and> spec_target_amount scenario_config scenario_engine scenario_month 10 1 = 24
   \<and> calculate_sprinkle_target_amounts failing_host scenario_config scenario_engine = Inr [24]
   \<and> rounded_to_2_decimals 24 24
   \<and> too_soon_since_last_event (scenario_engine\<lparr>last_rain := Some (19876 * 86400)\<rparr>) scenario_month
   \<and> calculate_sprinkle_target_amounts failing_host scenario_config
        (scenario_engine\<lparr>last_rain := Some (19876 * 86400)\<rparr>) = Inr [0]
   \<and> spec_target_amount halfway_config halfway_engine halfway_month 7 1 = 525 / 1000
   \<and> calculate_sprinkle_target_amounts failing_host halfway_config halfway_engine = Inr [53 / 100]"
proof -
  have h1: "py_get (schedule scenario_engine) (month_of_day (date_of (clock scenario_engine)) - 1) = Inr scenario_month"
    by (rule scenario_month_lookup)
  have h2: "length (water_flow_rate scenario_engine) = num_stations scenario_config"
    by (simp add: scenario_defs)
  have h3: "length (station_areas scenario_config) = num_stations scenario_config"
    by (simp add: scenario_defs)
  have re: "recorded_events scenario_engine = [19875 * 86400 + 18 * 3600]"
    by (simp add: scenario_defs recorded_events_def)
  have d: "date_of (clock scenario_engine) - date_of (19875 * 86400 + 18 * 3600) = 2"
    by (simp add: scenario_defs date_of_def)
  have ns: "\<not> too_soon_since_last_event scenario_engine scenario_month"
    by (simp add: too_soon_since_last_event_def scenario_defs recorded_events_def date_of_def)
  have wh: "watering_hours_of scenario_month \<noteq> []"
    by (simp add: scenario_defs watering_hours_of_def)
  have sm: "map_of (stations scenario_month) 1 = Some 10"
    by (simp add: scenario_defs)
  have v: "spec_target_amount scenario_config scenario_engine scenario_month 10 1 = 24"
    by (simp add: spec_target_amount_def scenario_defs watering_hours_of_def Let_def)
  have ev: "calculate_sprinkle_target_amounts failing_host scenario_config scenario_engine = Inr [24]"
    using h1 ns
    by (simp add: calculate_sprinkle_target_amounts_def too_soon_as_computed month_config_falsy_def
        station_ids_def station_minutes_def area_or_1_def py_get_def py_set_def py_index_def
        py_round2_def py_round_int_def failing_host_def scenario_defs Let_def
        split: option.splits)
  let ?s' = "scenario_engine\<lparr>last_rain := Some (19876 * 86400)\<rparr>"
  have h1': "py_get (schedule ?s') (month_of_day (date_of (clock ?s')) - 1) = Inr scenario_month"
    using h1 by simp
  have h2': "length (water_flow_rate ?s') = num_stations scenario_config" using h2 by simp
  have ts: "too_soon_since_last_event ?s' scenario_month"
    by (simp add: too_soon_since_last_event_def scenario_defs recorded_events_def date_of_def)
  have n1: "(1::int) \<le> int (num_stations scenario_config)" by (simp add: scenario_defs)
  note T = daily_target_amounts[where h = failing_host and station_id = 1 and minutes = 10, OF h1 h2 h3]
  have prem: "\<not> too_soon_since_last_event scenario_engine scenario_month
      \<and> watering_hours_of scenario_month \<noteq> []
      \<and> (1::int) \<le> 1 \<and> 1 \<le> int (num_stations scenario_config)
      \<and> map_of (stations scenario_month) 1 = Some 10 \<and> (0::int) < 10"
    using ns wh sm n1 by simp
  from T prem obtain target where
    t: "calculate_sprinkle_target_amounts failing_host scenario_config scenario_engine = Inr target"
       "rounded_to_2_decimals (target ! nat (1 - 1))
          (spec_target_amount scenario_config scenario_engine scenario_month 10 1)"
    by blast
  have "target = [24]" using t(1) ev by simp
  then have r: "rounded_to_2_decimals 24 24" using t(2) v by simp
  note T' = daily_target_amounts[where h = failing_host and station_id = 1 and minutes = 10, OF h1' h2' h3]
  from T' ts have "calculate_sprinkle_target_amounts failing_host scenario_config ?s'
      = Inr (replicate (num_stations scenario_config) 0)" by blast
  then have z: "calculate_sprinkle_target_amounts failing_host scenario_config ?s' = Inr [0]"
    by (simp add: scenario_config_def)
  have hv: "spec_target_amount halfway_config halfway_engine halfway_month 7 1 = 525 / 1000"
    by (simp add: spec_target_amount_def halfway_config_def halfway_engine_def halfway_month_def
        scenario_defs watering_hours_of_def Let_def)
  have fl: "\<lfloor>(105::rat) / 2\<rfloor> = 52" by (simp add: floor_unique)
  have hl: "py_get (schedule halfway_engine) (month_of_day (date_of (clock halfway_engine)) - 1) = Inr halfway_month"
    by (simp add: halfway_engine_def scenario_engine_def py_get_def py_index_def month_of_day_def date_of_def Let_def)
  have hns: "\<not> too_soon_since_last_event halfway_engine halfway_month"
    by (simp add: too_soon_since_last_event_def halfway_engine_def halfway_month_def scenario_defs
        recorded_events_def date_of_def)
  have hev: "calculate_sprinkle_target_amounts failing_host halfway_config halfway_engine = Inr [53 / 100]"
    using hl hns
    by (simp add: calculate_sprinkle_target_amounts_def too_soon_as_computed month_config_falsy_def
        station_ids_def station_minutes_def area_or_1_def py_get_def py_set_def py_index_def
        py_round2_def py_round_int_def failing_host_def halfway_config_def halfway_engine_def
        halfway_month_def scenario_defs Let_def fl split: option.splits)
  show ?thesis using h1 h2 h3 re d ns wh sm v ev r ts z hv hev by simp
qed

text \<open>
  C3. The duration of one run is \<open>int(per_run_target_mm / mm_per_minute + 0.999)\<close>.
  On the specification's scenario (area 10, flow 12, per-run target 12.00 mm) it is 10
  minutes, the ceiling. With a 10.00 mm target and 9.9994 mm of forecast rain the
  quotient is 0.0005: the code computes 0 minutes and does not water, where the ceiling
  is 1 minute.
\<close>

theorem minutes_needed_falls_short_of_ceiling:
  "watering_minutes_needed scenario_config nearly_met_engine 1 1 = Inr (Some 0)
   \<and> spec_minutes_needed scenario_config nearly_met_engine 1 1 = 1
   \<and> watering_minutes_needed scenario_config scenario_engine 2 1 = Inr (Some 10)
   \<and> spec_minutes_needed scenario_config scenario_engine 2 1 = 10"
proof -
  have f1: "\<lfloor>(1999::rat) / 2000\<rfloor> = 0" by (simp add: floor_unique)
  have f2: "\<lfloor>(10999::rat) / 1000\<rfloor> = 10" by (simp add: floor_unique)
  have c1: "\<lceil>(1::rat) / 2000\<rceil> = 1" by (simp add: ceiling_unique)
  show ?thesis
    by (simp add: watering_minutes_needed_def spec_minutes_needed_def nearly_met_engine_def
        scenario_defs py_get_def py_index_def area_or_1_def py_trunc_def Let_def f1 f2 c1)
qed

section \<open>Parameters of a configured action\<close>


















section \<open>Next watering date\<close>

text \<open>
  C8. \<open>get_next_watering_date\<close> evaluated at 05:00 on a day whose month has the hours
  18:00, 06:00 configured in that order: it returns 18:00 of that day, the first hour of
  the list that is still in the future, while the chronologically earliest configured
  hour still in the future is 06:00.
\<close>

theorem next_watering_date_takes_list_order:
  "get_next_watering_date unsorted_hours_engine = Some (Inr (Some (19877 * 86400 + 18 * 3600)))
   \<and> spec_earliest_future_hour 19877 (clock unsorted_hours_engine) [''18:00'', ''06:00'']
       = Some (19877 * 86400 + 6 * 3600)"
proof -
  have p18: "parse_time_string ''18:00'' = Inr (18, 0, 0)"
    by (simp add: parse_time_string_def time_field_def py_text_defs)
  have p06: "parse_time_string ''06:00'' = Inr (6, 0, 0)"
    by (simp add: parse_time_string_def time_field_def py_text_defs)
  have m: "month_of_day 19877 = 6" by (simp add: month_of_day_def Let_def)
  have adv: "advance_to_month_with_hours (schedule unsorted_hours_engine) 19877 = Some (Inr 19877)"
    by (subst advance_to_month_with_hours.simps)
       (simp add: unsorted_hours_engine_def scenario_defs m py_get_def py_index_def)
  have fm: "find_month_with_hours (schedule unsorted_hours_engine) 5 (map int [0..<12])
      = Inr (Some (scenario_month\<lparr>hours := [''18:00'', ''06:00'']\<rparr>))"
    by (simp add: unsorted_hours_engine_def scenario_defs py_get_def py_index_def upt_rec)
  have g: "get_next_watering_date unsorted_hours_engine = Some (Inr (Some (19877 * 86400 + 18 * 3600)))"
    unfolding get_next_watering_date_def
    using adv fm
    by (simp add: unsorted_hours_engine_def scenario_defs date_of_def m Let_def last_event_def
        get_interval_days_def p18 p06 combine_def)
  have sp: "spec_earliest_future_hour 19877 (clock unsorted_hours_engine) [''18:00'', ''06:00'']
       = Some (19877 * 86400 + 6 * 3600)"
    by (simp add: spec_earliest_future_hour_def future_hours_on_def p18 p06 combine_def
        unsorted_hours_engine_def scenario_defs)
  show ?thesis using g sp by simp
qed

section \<open>Restart safety\<close>

lemma turn_off_station_switch_effect:
  "snd (turn_off_station_switch h cfg station s)
     = s\<lparr>calls := calls s @ (case get_station_switch_entity (station_switch_entities cfg) station of
                                Inl e \<Rightarrow> [] | Inr eid \<Rightarrow> [SwitchTurnOff eid])\<rparr>"
  by (simp add: turn_off_station_switch_def host_call_def split: sum.splits)

text \<open>
  C1, as stated, fails for a stale session whose station has no switch configured (station
  4 with three switch entities): the record is discarded and the snapshot persisted, but
  no switch is turned off, because no service call is issued.
\<close>

theorem stale_session_without_switch_is_only_discarded:
  "async_restore_active_irrigation reliable_host three_switch_config (three_station_engine 4)
     = (Returned, save_persistent_data ((three_station_engine 4)\<lparr>active_irrigation := None\<rparr>))
   \<and> calls (snd (async_restore_active_irrigation reliable_host three_switch_config (three_station_engine 4))) = []"
  by (simp add: async_restore_active_irrigation_def is_switch_control_method_def three_switch_config_def
      three_station_engine_def stale_session_def scenario_defs reliable_host_def failing_host_def
      turn_off_station_switch_def get_station_switch_entity_def save_persistent_data_def Let_def)

text \<open>
  C1, amended. With the switch strategy, for every persisted session with a station number
  other than 0 whose \<open>end_at\<close> parses and is at or before the current time, the restore
  procedure returns with the session record set to null and the snapshot persisted, marks
  no station Sprinkling and arms no stop; it issues the turn-off call for the station's
  switch when the station has a non-blank switch entity configured, and no call
  otherwise. A failure of the call is dropped.
\<close>

theorem stale_session_is_switched_off_and_discarded:
  assumes "is_switch_control_method cfg"
    and "active_irrigation s = Some session"
    and "session_station session = Some station" and "station \<noteq> 0"
    and "session_end_at session = Some end_at_str" and "end_at_str \<noteq> []"
    and "fromisoformat h end_at_str = Some end_at" and "end_at \<le> clock s"
  shows "fst (async_restore_active_irrigation h cfg s) = Returned
       \<and> active_irrigation (snd (async_restore_active_irrigation h cfg s)) = None
       \<and> storage (snd (async_restore_active_irrigation h cfg s))
           = Some (snapshot_of (snd (async_restore_active_irrigation h cfg s)))
       \<and> station_state (snd (async_restore_active_irrigation h cfg s)) = station_state s
       \<and> armed_stops (snd (async_restore_active_irrigation h cfg s)) = armed_stops s
       \<and> calls (snd (async_restore_active_irrigation h cfg s))
           = calls s @ (case get_station_switch_entity (station_switch_entities cfg) station of
                          Inl e \<Rightarrow> []
                        | Inr entity_id \<Rightarrow> [SwitchTurnOff entity_id])"
proof -
  have r: "async_restore_active_irrigation h cfg s
      = (Returned, save_persistent_data
           ((snd (turn_off_station_switch h cfg station s))\<lparr>active_irrigation := None\<rparr>))"
    using assms by (simp add: async_restore_active_irrigation_def Let_def)
  show ?thesis
    unfolding r
    by (simp add: turn_off_station_switch_effect save_persistent_data_def snapshot_of_def)
qed

theorem stale_session_is_switched_off_and_discarded_witness:
  "is_switch_control_method three_switch_config
   \<and> active_irrigation (three_station_engine 2) = Some (stale_session 2)
   \<and> session_station (stale_session 2) = Some 2 \<and> (2::int) \<noteq> 0
   \<and> session_end_at (stale_session 2) = Some ''2024-06-03T04:00:00''
   \<and> ''2024-06-03T04:00:00'' \<noteq> []
   \<and> fromisoformat failing_host ''2024-06-03T04:00:00'' = Some (19877 * 86400 + 4 * 3600)
   \<and> 19877 * 86400 + 4 * 3600 \<le> clock (three_station_engine 2)
   \<and> active_irrigation (snd (async_restore_active_irrigation failing_host three_switch_config (three_station_engine 2))) = None
   \<and> calls (snd (async_restore_active_irrigation failing_host three_switch_config (three_station_engine 2)))
       = [SwitchTurnOff ''switch.valve_2'']
   \<and> station_state (snd (async_restore_active_irrigation failing_host three_switch_config (three_station_engine 2)))
       = [''Stopped'', ''Stopped'', ''Stopped'']"
proof -
  have h1: "is_switch_control_method three_switch_config"
    by (simp add: is_switch_control_method_def three_switch_config_def scenario_defs)
  have h2: "active_irrigation (three_station_engine 2) = Some (stale_session 2)"
    by (simp add: three_station_engine_def)
  have h3: "session_station (stale_session 2) = Some 2" by (simp add: stale_session_def)
  have h4: "(2::int) \<noteq> 0" by simp
  have h5: "session_end_at (stale_session 2) = Some ''2024-06-03T04:00:00''" by (simp add: stale_session_def)
  have h6: "''2024-06-03T04:00:00'' \<noteq> []" by simp
  have h7: "fromisoformat failing_host ''2024-06-03T04:00:00'' = Some (19877 * 86400 + 4 * 3600)"
    by (simp add: failing_host_def)
  have h8: "19877 * 86400 + 4 * 3600 \<le> clock (three_station_engine 2)"
    by (simp add: three_station_engine_def scenario_defs)
  have e: "get_station_switch_entity (station_switch_entities three_switch_config) 2 = Inr ''switch.valve_2''"
    by (simp add: get_station_switch_entity_def three_switch_config_def scenario_defs py_text_defs Let_def)
  have c: "calls (three_station_engine 2) = []" "station_state (three_station_engine 2) = [''Stopped'', ''Stopped'', ''Stopped'']"
    by (simp_all add: three_station_engine_def scenario_defs)
  from stale_session_is_switched_off_and_discarded[OF h1 h2 h3 h4 h5 h6 h7 h8]
  show ?thesis using h1 h2 h3 h5 h7 h8 e c by simp
qed

section \<open>Failed invocations\<close>

lemma host_call_effect: "snd (host_call h c s) = s\<lparr>calls := calls s @ [c]\<rparr>"
  by (simp add: host_call_def)

lemma begin_watering_raised:
  "begin_watering h cfg station d s = (Raised e, s1) \<Longrightarrow> s1 = s\<lparr>calls := calls s1\<rparr>"
  by (auto simp: begin_watering_def turn_on_station_switch_def call_configured_service_def
      host_call_def Let_def split: if_splits sum.splits prod.splits outcome.splits)

text \<open>
  C6. For every station and duration, when the invocation at the start of
  \<open>start_irrigation\<close> (switching the station on, or the configured sprinkle action)
  raises a connectivity error, \<open>start_irrigation\<close> returns with the stations' states
  unchanged, the session record and the store untouched, no stop armed, and the applied
  mm, the total water consumption and the last sprinkle time unchanged.
\<close>

theorem failed_start_changes_nothing:
  assumes "fst (begin_watering h cfg station
                  (case minutes of Some m \<Rightarrow> m | None \<Rightarrow> irrigation_manual_duration s)
                  (s\<lparr>irrigation_stop_event := False\<rparr>)) = Raised APIConnectionError"
  shows "fst (start_irrigation h cfg env station minutes s) = Returned
       \<and> station_state (snd (start_irrigation h cfg env station minutes s)) = station_state s
       \<and> active_irrigation (snd (start_irrigation h cfg env station minutes s)) = active_irrigation s
       \<and> storage (snd (start_irrigation h cfg env station minutes s)) = storage s
       \<and> armed_stops (snd (start_irrigation h cfg env station minutes s)) = armed_stops s
       \<and> sprinkle_total_amount_today (snd (start_irrigation h cfg env station minutes s))
           = sprinkle_total_amount_today s
       \<and> total_water_consumption (snd (start_irrigation h cfg env station minutes s))
           = total_water_consumption s
       \<and> last_sprinkle (snd (start_irrigation h cfg env station minutes s)) = last_sprinkle s"
proof -
  let ?d = "case minutes of Some m \<Rightarrow> m | None \<Rightarrow> irrigation_manual_duration s"
  let ?s0 = "s\<lparr>irrigation_stop_event := False\<rparr>"
  obtain s1 where b: "begin_watering h cfg station ?d ?s0 = (Raised APIConnectionError, s1)"
    using assms by (cases "begin_watering h cfg station ?d ?s0") auto
  have s1: "s1 = ?s0\<lparr>calls := calls s1\<rparr>" by (rule begin_watering_raised[OF b])
  have r: "start_irrigation h cfg env station minutes s = (Returned, s1)"
    using b by (simp add: start_irrigation_def Let_def)
  show ?thesis unfolding r by (subst s1, simp)+
qed

theorem failed_start_changes_nothing_witness:
  "fst (begin_watering failing_host scenario_config 1
          (case Some 5 of Some m \<Rightarrow> m | None \<Rightarrow> irrigation_manual_duration scenario_engine)
          (scenario_engine\<lparr>irrigation_stop_event := False\<rparr>)) = Raised APIConnectionError
   \<and> start_irrigation failing_host scenario_config (\<lambda>i s. s) 1 (Some 5) scenario_engine
       = (Returned, scenario_engine\<lparr>calls := [SwitchTurnOn ''switch.valve_1'']\<rparr>)
   \<and> station_state (snd (start_irrigation failing_host scenario_config (\<lambda>i s. s) 1 (Some 5) scenario_engine))
       = [''Stopped'']
   \<and> active_irrigation (snd (start_irrigation failing_host scenario_config (\<lambda>i s. s) 1 (Some 5) scenario_engine))
       = None"
proof -
  have bw: "begin_watering failing_host scenario_config 1 5 (scenario_engine\<lparr>irrigation_stop_event := False\<rparr>)
      = (Raised APIConnectionError, scenario_engine\<lparr>calls := [SwitchTurnOn ''switch.valve_1'']\<rparr>)"
    by (simp add: begin_watering_def is_switch_control_method_def turn_on_station_switch_def
        get_station_switch_entity_def host_call_def failing_host_def scenario_defs py_text_defs Let_def)
  have h: "fst (begin_watering failing_host scenario_config 1
          (case Some 5 of Some m \<Rightarrow> m | None \<Rightarrow> irrigation_manual_duration scenario_engine)
          (scenario_engine\<lparr>irrigation_stop_event := False\<rparr>)) = Raised APIConnectionError"
    using bw by simp
  have r: "start_irrigation failing_host scenario_config (\<lambda>i s. s) 1 (Some 5) scenario_engine
       = (Returned, scenario_engine\<lparr>calls := [SwitchTurnOn ''switch.valve_1'']\<rparr>)"
    using bw by (simp add: start_irrigation_def Let_def)
  from failed_start_changes_nothing[OF h, of "\<lambda>i s. s"] h r
  show ?thesis by (simp add: scenario_defs)
qed

lemma global_stop_raised:
  "global_stop h cfg s = (Raised e, s1) \<Longrightarrow> s1 = s\<lparr>calls := calls s1\<rparr>"
  by (auto simp: global_stop_def call_configured_service_def host_call_def
      split: if_splits sum.splits prod.splits)

lemma stop_irrigation_raised:
  "fst (global_stop h cfg s) = Raised APIConnectionError
   \<Longrightarrow> stop_irrigation h cfg s = (Returned, snd (global_stop h cfg s))"
  by (cases "global_stop h cfg s") (simp add: stop_irrigation.simps)

lemma failed_stop_state:
  assumes "fst (global_stop h cfg s) = Raised APIConnectionError"
  shows "snd (stop_irrigation h cfg s) = s\<lparr>calls := calls (snd (stop_irrigation h cfg s))\<rparr>"
proof -
  obtain s1 where g: "global_stop h cfg s = (Raised APIConnectionError, s1)"
    using assms by (cases "global_stop h cfg s") auto
  have "s1 = s\<lparr>calls := calls s1\<rparr>" by (rule global_stop_raised[OF g])
  then show ?thesis using g by (simp add: stop_irrigation.simps)
qed

lemma wait_loop_under_failed_stops:
  assumes fail: "\<And>s'. fst (global_stop h cfg s') = Raised APIConnectionError"
    and "\<not> irrigation_stop_event s" and "1 \<le> station"
    and "station \<le> int (length (water_flow_rate s))"
    and "station \<le> int (length (station_areas cfg))"
    and "station \<le> int (length (sprinkle_total_amount_today s))"
  shows "fst (wait_loop cfg (\<lambda>i s'. snd (stop_irrigation h cfg s')) station i k s) = Completed
       \<and> clock (snd (wait_loop cfg (\<lambda>i s'. snd (stop_irrigation h cfg s')) station i k s)) = clock s + int k
       \<and> \<not> irrigation_stop_event (snd (wait_loop cfg (\<lambda>i s'. snd (stop_irrigation h cfg s')) station i k s))"
  using assms(2-)
proof (induction k arbitrary: i s)
  case 0
  then show ?case by simp
next
  case (Suc k)
  let ?env = "\<lambda>i s'. snd (stop_irrigation h cfg s')"
  let ?t = "s\<lparr>clock := clock s + 1\<rparr>"
  define s1 where "s1 = ?env i ?t"
  have s1: "s1 = ?t\<lparr>calls := calls s1\<rparr>"
    unfolding s1_def by (rule failed_stop_state[OF fail])
  have f1: "water_flow_rate s1 = water_flow_rate s" "sprinkle_total_amount_today s1 = sprinkle_total_amount_today s"
    "irrigation_stop_event s1 = irrigation_stop_event s" "clock s1 = clock s + 1"
    by (subst s1, simp)+
  have g1: "py_get (water_flow_rate s1) (station - 1) = Inr (water_flow_rate s ! nat (station - 1))"
    using Suc.prems f1 by (simp add: py_get_in_range)
  have g2: "py_get (station_areas cfg) (station - 1) = Inr (station_areas cfg ! nat (station - 1))"
    using Suc.prems by (simp add: py_get_in_range)
  have g3: "py_get (sprinkle_total_amount_today s1) (station - 1)
      = Inr (sprinkle_total_amount_today s ! nat (station - 1))"
    using Suc.prems f1 by (simp add: py_get_in_range)
  have g4: "\<And>v. py_set (sprinkle_total_amount_today s1) (station - 1) v
      = Inr ((sprinkle_total_amount_today s)[nat (station - 1) := v])"
    using Suc.prems f1 by (simp add: py_set_in_range)
  define s3 where "s3 = s1\<lparr>total_water_consumption := total_water_consumption s1
          + water_flow_rate s ! nat (station - 1) / 60,
       sprinkle_total_amount_today := (sprinkle_total_amount_today s)[nat (station - 1) :=
          sprinkle_total_amount_today s ! nat (station - 1)
          + water_flow_rate s ! nat (station - 1) / area_or_1 (station_areas cfg ! nat (station - 1)) / 60]\<rparr>"
  have step: "wait_loop cfg ?env station i (Suc k) s = wait_loop cfg ?env station (Suc i) k s3"
    using Suc.prems(1) g1 g2 g3 g4
    by (simp add: Let_def s1_def[symmetric] s3_def)
  have p: "\<not> irrigation_stop_event s3" "station \<le> int (length (water_flow_rate s3))"
    "station \<le> int (length (sprinkle_total_amount_today s3))" "clock s3 = clock s + 1"
    using Suc.prems f1 by (simp_all add: s3_def)
  from Suc.IH[OF p(1) Suc.prems(2) p(2) Suc.prems(4) p(3), of "Suc i"] p(4)
  show ?case unfolding step by simp
qed

text \<open>
  C10. When the global stop invocation inside \<open>stop_irrigation\<close> raises a connectivity
  error, \<open>stop_irrigation\<close> returns without setting the stop signal, without clearing
  the session record or saving, and without changing any station's state. So a wait loop
  during whose sleeps such stops are attempted, all failing, is not interrupted: it
  completes its \<open>k\<close> one-second ticks.
\<close>

theorem failed_stop_changes_nothing:
  "(fst (global_stop h cfg s) = Raised APIConnectionError \<longrightarrow>
      fst (stop_irrigation h cfg s) = Returned
      \<and> irrigation_stop_event (snd (stop_irrigation h cfg s)) = irrigation_stop_event s
      \<and> active_irrigation (snd (stop_irrigation h cfg s)) = active_irrigation s
      \<and> station_state (snd (stop_irrigation h cfg s)) = station_state s
      \<and> storage (snd (stop_irrigation h cfg s)) = storage s)
   \<and> ((\<forall>s'. fst (global_stop h cfg s') = Raised APIConnectionError)
       \<and> \<not> irrigation_stop_event s \<and> 1 \<le> station
       \<and> station \<le> int (length (water_flow_rate s))
       \<and> station \<le> int (length (station_areas cfg))
       \<and> station \<le> int (length (sprinkle_total_amount_today s)) \<longrightarrow>
      fst (wait_loop cfg (\<lambda>i s'. snd (stop_irrigation h cfg s')) station 0 k s) = Completed
      \<and> clock (snd (wait_loop cfg (\<lambda>i s'. snd (stop_irrigation h cfg s')) station 0 k s))
          = clock s + int k)"
proof (intro conjI impI)
  assume a: "fst (global_stop h cfg s) = Raised APIConnectionError"
  show "fst (stop_irrigation h cfg s) = Returned"
    by (simp add: stop_irrigation_raised[OF a])
  note st = failed_stop_state[OF a]
  show "irrigation_stop_event (snd (stop_irrigation h cfg s)) = irrigation_stop_event s"
    by (subst st) simp
  show "active_irrigation (snd (stop_irrigation h cfg s)) = active_irrigation s"
    by (subst st) simp
  show "station_state (snd (stop_irrigation h cfg s)) = station_state s"
    by (subst st) simp
  show "storage (snd (stop_irrigation h cfg s)) = storage s"
    by (subst st) simp
next
  assume a: "(\<forall>s'. fst (global_stop h cfg s') = Raised APIConnectionError)
       \<and> \<not> irrigation_stop_event s \<and> 1 \<le> station
       \<and> station \<le> int (length (water_flow_rate s))
       \<and> station \<le> int (length (station_areas cfg))
       \<and> station \<le> int (length (sprinkle_total_amount_today s))"
  then have f: "\<And>s'. fst (global_stop h cfg s') = Raised APIConnectionError" by blast
  from wait_loop_under_failed_stops[of h cfg s station 0 k, OF f] a
  show "fst (wait_loop cfg (\<lambda>i s'. snd (stop_irrigation h cfg s')) station 0 k s) = Completed"
    and "clock (snd (wait_loop cfg (\<lambda>i s'. snd (stop_irrigation h cfg s')) station 0 k s))
          = clock s + int k"
    by blast+
qed

lemma service_stop_fails:
  "global_stop failing_host service_config s'
     = (Raised APIConnectionError, s'\<lparr>calls := calls s' @ [ConfiguredService ''solem_toolkit'' ''stop'' []]\<rparr>)"
  by (simp add: global_stop_def is_switch_control_method_def service_config_def scenario_defs
      call_configured_service_def configured_service_call_def split_first_dot_def or_empty_def
      host_call_def failing_host_def py_text_defs Let_def)

theorem failed_stop_changes_nothing_witness:
  "fst (global_stop failing_host service_config scenario_engine) = Raised APIConnectionError
   \<and> (\<forall>s'. fst (global_stop failing_host service_config s') = Raised APIConnectionError)
   \<and> \<not> irrigation_stop_event scenario_engine \<and> (1::int) \<le> 1
   \<and> 1 \<le> int (length (water_flow_rate scenario_engine))
   \<and> 1 \<le> int (length (station_areas service_config))
   \<and> 1 \<le> int (length (sprinkle_total_amount_today scenario_engine))
   \<and> stop_irrigation failing_host service_config scenario_engine
       = (Returned, scenario_engine\<lparr>calls := [ConfiguredService ''solem_toolkit'' ''stop'' []]\<rparr>)
   \<and> fst (wait_loop service_config (\<lambda>i s'. snd (stop_irrigation failing_host service_config s')) 1 0 600
             scenario_engine) = Completed
   \<and> clock (snd (wait_loop service_config (\<lambda>i s'. snd (stop_irrigation failing_host service_config s')) 1 0 600
             scenario_engine)) = clock scenario_engine + 600"
proof -
  have h1: "fst (global_stop failing_host service_config scenario_engine) = Raised APIConnectionError"
    by (simp add: service_stop_fails)
  have h2: "\<forall>s'. fst (global_stop failing_host service_config s') = Raised APIConnectionError"
    by (simp add: service_stop_fails)
  have h3: "\<not> irrigation_stop_event scenario_engine" "1 \<le> int (length (water_flow_rate scenario_engine))"
    "1 \<le> int (length (station_areas service_config))"
    "1 \<le> int (length (sprinkle_total_amount_today scenario_engine))"
    by (simp_all add: scenario_defs service_config_def)
  have r: "stop_irrigation failing_host service_config scenario_engine
       = (Returned, scenario_engine\<lparr>calls := [ConfiguredService ''solem_toolkit'' ''stop'' []]\<rparr>)"
    by (simp add: stop_irrigation.simps service_stop_fails scenario_defs)
  from failed_stop_changes_nothing[of failing_host service_config scenario_engine 1 600] h1 h2 h3 r
  show ?thesis by simp
qed

section \<open>Total water consumption\<close>



lemma save_same_water: "same_water s (save_persistent_data s)"
  by (simp add: same_water_def save_persistent_data_def)

lemma host_call_same_water: "host_call h c s = (b, s') \<Longrightarrow> same_water s s'"
  by (auto simp: same_water_def host_call_def)






























end
